theory Spec2Isabelle
  imports Main
begin

section \<open>Conference Central: a shallow embedding of conference.py\<close>

text \<open>
  The module \<^verbatim>\<open>conference-central/conference.py\<close> is a Python 2 App Engine
  service. Its handlers read and write two kinds of datastore entity, Profile
  and Conference. The embedding makes the ambient pieces explicit:
  \<^item> the datastore is a record of two maps, passed in and returned;
  \<^item> the current user (\<^verbatim>\<open>endpoints.get_current_user()\<close>) is an argument of
    type \<open>user option\<close>;
  \<^item> every \<^verbatim>\<open>raise\<close> is a value \<open>Inl e\<close> of the result;
  \<^item> \<^verbatim>\<open>@ndb.transactional\<close> is the combinator \<open>transactional\<close>, which
    keeps the datastore it was given when the body raises.
  Python's unbounded integers are \<open>int\<close>, its byte strings are \<open>string\<close>.
\<close>

subsection \<open>Exceptions\<close>

text \<open>
  The exception classes the module raises, each with its message where the
  source gives one. \<open>ValueError\<close> is what the builtins \<^verbatim>\<open>int\<close> and
  \<^verbatim>\<open>datetime.strptime\<close> raise, \<open>NameError\<close> is what evaluating an unbound
  name raises, \<open>BadValueError\<close> is what an ndb property raises when it is
  given a value of the wrong type, and \<open>AttributeError\<close> is what
  \<^verbatim>\<open>getattr\<close> raises on a missing attribute.
\<close>

datatype error =
    UnauthorizedException string
  | BadRequestException string
  | NotFoundException string
  | ForbiddenException string
  | ConflictException string
  | ValueError
  | NameError string
  | BadValueError
  | AttributeError

text \<open>The names the specification gives to these failures.\<close>

abbreviation Unauthenticated :: error where
  "Unauthenticated \<equiv> UnauthorizedException ''Authorization required''"

abbreviation MissingRequiredField :: error where
  "MissingRequiredField \<equiv> BadRequestException ''Conference 'name' field required''"

abbreviation InvalidFilterFieldOrOperator :: error where
  "InvalidFilterFieldOrOperator \<equiv>
     BadRequestException ''Filter contains invalid field or operator.''"

abbreviation MultipleInequalityFields :: error where
  "MultipleInequalityFields \<equiv>
     BadRequestException ''Inequality filter is allowed on only one field.''"

abbreviation InvalidFilterValue :: error where
  "InvalidFilterValue \<equiv> ValueError"

abbreviation InvalidDate :: error where
  "InvalidDate \<equiv> ValueError"

abbreviation ConferenceNotFound :: "string \<Rightarrow> error" where
  "ConferenceNotFound wsck \<equiv> NotFoundException (''No conference found with key: '' @ wsck)"

abbreviation NotOwner :: error where
  "NotOwner \<equiv> ForbiddenException ''Only the owner can update the conference.''"

abbreviation AlreadyRegistered :: error where
  "AlreadyRegistered \<equiv>
     ConflictException ''You have already registered for this conference''"

abbreviation NoSeatsAvailable :: error where
  "NoSeatsAvailable \<equiv> ConflictException ''There are no seats available.''"

subsection \<open>The data model\<close>

text \<open>
  Modelled from the spec: the identity an external resolver provides for the
  caller (\<^verbatim>\<open>endpoints.get_current_user()\<close> and \<^verbatim>\<open>utils.get_user_id\<close>, which
  are not part of the module): a stable id, a display name and an email.
\<close>

record user =
  ident :: string
  nickname :: string
  email :: string

definition get_user_id :: "user \<Rightarrow> string" where
  "get_user_id u = ident u"

text \<open>
  Modelled from the spec: the entity and message classes of \<^verbatim>\<open>models.py\<close>,
  which the module imports. Only \<^verbatim>\<open>TeeShirtSize.NOT_SPECIFIED\<close> is named in
  the module; the other members stand for the remaining sizes of the enum.
\<close>

datatype TeeShirtSize =
    NOT_SPECIFIED
  | XS_M | XS_W | S_M | S_W | M_M | M_W | L_M | L_W
  | XL_M | XL_W | XXL_M | XXL_W | XXXL_M | XXXL_W

text \<open>\<^verbatim>\<open>str(size)\<close>: the name of the member.\<close>

fun str_TeeShirtSize :: "TeeShirtSize \<Rightarrow> string" where
  "str_TeeShirtSize NOT_SPECIFIED = ''NOT_SPECIFIED''"
| "str_TeeShirtSize XS_M = ''XS_M''"
| "str_TeeShirtSize XS_W = ''XS_W''"
| "str_TeeShirtSize S_M = ''S_M''"
| "str_TeeShirtSize S_W = ''S_W''"
| "str_TeeShirtSize M_M = ''M_M''"
| "str_TeeShirtSize M_W = ''M_W''"
| "str_TeeShirtSize L_M = ''L_M''"
| "str_TeeShirtSize L_W = ''L_W''"
| "str_TeeShirtSize XL_M = ''XL_M''"
| "str_TeeShirtSize XL_W = ''XL_W''"
| "str_TeeShirtSize XXL_M = ''XXL_M''"
| "str_TeeShirtSize XXL_W = ''XXL_W''"
| "str_TeeShirtSize XXXL_M = ''XXXL_M''"
| "str_TeeShirtSize XXXL_W = ''XXXL_W''"

text \<open>\<^verbatim>\<open>getattr(TeeShirtSize, name)\<close>: the member of that name, if any.\<close>

definition TeeShirtSize_members :: "TeeShirtSize list" where
  "TeeShirtSize_members =
     [NOT_SPECIFIED, XS_M, XS_W, S_M, S_W, M_M, M_W, L_M, L_W,
      XL_M, XL_W, XXL_M, XXL_W, XXXL_M, XXXL_W]"

definition getattr_TeeShirtSize :: "string \<Rightarrow> TeeShirtSize option" where
  "getattr_TeeShirtSize n = find (\<lambda>t. str_TeeShirtSize t = n) TeeShirtSize_members"

text \<open>
  Modelled from the spec: the Profile entity of \<^verbatim>\<open>models.py\<close>. The module
  stores \<open>teeShirtSize\<close> as the string \<^verbatim>\<open>str(size)\<close>.
  \<open>conferenceKeysToAttend\<close> holds websafe conference keys.
\<close>

record Profile =
  userId :: string
  displayName :: string
  mainEmail :: string
  teeShirtSize :: string
  conferenceKeysToAttend :: "string list"

text \<open>Modelled from the spec: the messages ProfileMiniForm and ProfileForm of \<^verbatim>\<open>models.py\<close>.\<close>

record ProfileMiniForm =
  pm_displayName :: "string option"
  pm_teeShirtSize :: "TeeShirtSize option"

record ProfileForm =
  pf_displayName :: string
  pf_mainEmail :: string
  pf_teeShirtSize :: TeeShirtSize
  pf_conferenceKeysToAttend :: "string list"

text \<open>A calendar date, as \<^verbatim>\<open>datetime.date\<close> holds it.\<close>

record date =
  d_year :: nat
  d_month :: nat
  d_day :: nat

text \<open>
  Modelled from the spec: the Conference entity of \<^verbatim>\<open>models.py\<close>. Its key is
  the key of the \<open>conferences\<close> map below.
\<close>

record Conference =
  name :: string
  description :: "string option"
  organizerUserId :: string
  topics :: "string list"
  city :: string
  startDate :: "date option"
  month :: int
  maxAttendees :: int
  seatsAvailable :: int
  endDate :: "date option"

text \<open>
  Modelled from the spec: the message ConferenceForm of \<^verbatim>\<open>models.py\<close>; every
  field is optional on the wire, dates travel as strings.
\<close>

record ConferenceForm =
  cf_name :: "string option"
  cf_description :: "string option"
  cf_organizerUserId :: "string option"
  cf_topics :: "string list"
  cf_city :: "string option"
  cf_startDate :: "string option"
  cf_month :: "int option"
  cf_maxAttendees :: "int option"
  cf_seatsAvailable :: "int option"
  cf_endDate :: "string option"
  cf_websafeKey :: "string option"
  cf_organizerDisplayName :: "string option"

text \<open>
  The datastore: Profile entities under their user id, Conference entities
  under their websafe key.
\<close>

record datastore =
  profiles :: "string \<rightharpoonup> Profile"
  conferences :: "string \<rightharpoonup> Conference"

definition empty_datastore :: datastore where
  "empty_datastore = \<lparr>profiles = Map.empty, conferences = Map.empty\<rparr>"

text \<open>
  \<^verbatim>\<open>@ndb.transactional\<close>: the writes of the body are committed when it
  returns and dropped when it raises.
\<close>

definition transactional ::
  "(datastore \<Rightarrow> error + ('a \<times> datastore)) \<Rightarrow> datastore \<Rightarrow> (error + 'a) \<times> datastore" where
  "transactional body s =
     (case body s of
        Inl e \<Rightarrow> (Inl e, s)
      | Inr (r, s') \<Rightarrow> (Inr r, s'))"

subsection \<open>Profiles\<close>

text \<open>
  An entity read from the datastore carries the key it is stored under;
  \<^verbatim>\<open>entity.put()\<close> writes it back under that key.
\<close>

definition put_profile :: "string \<times> Profile \<Rightarrow> datastore \<Rightarrow> datastore" where
  "put_profile e s = s\<lparr>profiles := (profiles s)(fst e \<mapsto> snd e)\<rparr>"

definition put_conference :: "string \<times> Conference \<Rightarrow> datastore \<Rightarrow> datastore" where
  "put_conference e s = s\<lparr>conferences := (conferences s)(fst e \<mapsto> snd e)\<rparr>"

text \<open>
  \<^verbatim>\<open>_get_profile_from_user\<close>: the caller's Profile, created and stored
  when the datastore has none. A new Profile has no conferences to attend.
\<close>

definition get_profile_from_user ::
  "user option \<Rightarrow> datastore \<Rightarrow> error + ((string \<times> Profile) \<times> datastore)" where
  "get_profile_from_user usr s =
     (case usr of
        None \<Rightarrow> Inl Unauthenticated
      | Some u \<Rightarrow>
          (let uid = get_user_id u; key = uid in
           case profiles s key of
             Some profile \<Rightarrow> Inr ((key, profile), s)
           | None \<Rightarrow>
               (let profile = \<lparr>userId = uid, displayName = nickname u,
                                mainEmail = email u,
                                teeShirtSize = str_TeeShirtSize NOT_SPECIFIED,
                                conferenceKeysToAttend = []\<rparr>
                in Inr ((key, profile), put_profile (key, profile) s))))"

text \<open>\<^verbatim>\<open>_copy_profile_to_form\<close>.\<close>

definition copy_profile_to_form :: "Profile \<Rightarrow> error + ProfileForm" where
  "copy_profile_to_form prof =
     (case getattr_TeeShirtSize (teeShirtSize prof) of
        None \<Rightarrow> Inl AttributeError
      | Some t \<Rightarrow>
          Inr \<lparr>pf_displayName = displayName prof, pf_mainEmail = mainEmail prof,
               pf_teeShirtSize = t,
               pf_conferenceKeysToAttend = conferenceKeysToAttend prof\<rparr>)"

text \<open>
  \<^verbatim>\<open>_do_profile\<close>. A message object and an enum member are always true in a
  Python condition; a string is true when it is not empty. The handler is
  not transactional, so the Profile stays written when the copy to the form
  raises afterwards.
\<close>

definition do_profile ::
  "user option \<Rightarrow> ProfileMiniForm option \<Rightarrow> datastore \<Rightarrow> (error + ProfileForm) \<times> datastore" where
  "do_profile usr save_request s =
     (case get_profile_from_user usr s of
        Inl e \<Rightarrow> (Inl e, s)
      | Inr ((key, prof), s1) \<Rightarrow>
          (case save_request of
             None \<Rightarrow> (copy_profile_to_form prof, s1)
           | Some req \<Rightarrow>
               (let prof1 = (case pm_displayName req of
                               None \<Rightarrow> prof
                             | Some v \<Rightarrow> if v \<noteq> [] then prof\<lparr>displayName := v\<rparr> else prof);
                    prof2 = (case pm_teeShirtSize req of
                               None \<Rightarrow> prof1
                             | Some t \<Rightarrow> prof1\<lparr>teeShirtSize := str_TeeShirtSize t\<rparr>)
                in (copy_profile_to_form prof2, put_profile (key, prof2) s1))))"

subsection \<open>Registration\<close>

text \<open>
  \<^verbatim>\<open>_conference_registration\<close>, the body under \<^verbatim>\<open>@ndb.transactional(xg=True)\<close>.
  \<^verbatim>\<open>list.remove\<close> deletes the first occurrence, as \<open>remove1\<close> does.
\<close>

definition conference_registration_body ::
  "user option \<Rightarrow> string \<Rightarrow> bool \<Rightarrow> datastore \<Rightarrow> error + (bool \<times> datastore)" where
  "conference_registration_body usr wsck reg s =
     (case get_profile_from_user usr s of
        Inl e \<Rightarrow> Inl e
      | Inr ((key, prof), s1) \<Rightarrow>
          (case conferences s1 wsck of
             None \<Rightarrow> Inl (ConferenceNotFound wsck)
           | Some conf \<Rightarrow>
               (if reg then
                  (if wsck \<in> set (conferenceKeysToAttend prof) then Inl AlreadyRegistered
                   else if seatsAvailable conf \<le> 0 then Inl NoSeatsAvailable
                   else
                     (let prof' = prof\<lparr>conferenceKeysToAttend :=
                                         conferenceKeysToAttend prof @ [wsck]\<rparr>;
                          conf' = conf\<lparr>seatsAvailable := seatsAvailable conf - 1\<rparr>
                      in Inr (True, put_conference (wsck, conf') (put_profile (key, prof') s1))))
                else
                  (if wsck \<in> set (conferenceKeysToAttend prof) then
                     (let prof' = prof\<lparr>conferenceKeysToAttend :=
                                         remove1 wsck (conferenceKeysToAttend prof)\<rparr>;
                          conf' = conf\<lparr>seatsAvailable := seatsAvailable conf + 1\<rparr>
                      in Inr (True, put_conference (wsck, conf') (put_profile (key, prof') s1)))
                   else
                     Inr (False, put_conference (wsck, conf) (put_profile (key, prof) s1))))))"

definition conference_registration ::
  "user option \<Rightarrow> string \<Rightarrow> bool \<Rightarrow> datastore \<Rightarrow> (error + bool) \<times> datastore" where
  "conference_registration usr wsck reg s =
     transactional (conference_registration_body usr wsck reg) s"

text \<open>The two endpoints.\<close>

definition register_for_conference ::
  "user option \<Rightarrow> string \<Rightarrow> datastore \<Rightarrow> (error + bool) \<times> datastore" where
  "register_for_conference usr wsck s = conference_registration usr wsck True s"

definition unregister_from_conference ::
  "user option \<Rightarrow> string \<Rightarrow> datastore \<Rightarrow> (error + bool) \<times> datastore" where
  "unregister_from_conference usr wsck s = conference_registration usr wsck False s"

subsection \<open>Builtins: \<^verbatim>\<open>int\<close> and \<^verbatim>\<open>datetime.strptime\<close>\<close>

definition is_digit :: "char \<Rightarrow> bool" where
  "is_digit c = (c \<in> set ''0123456789'')"

definition is_space :: "char \<Rightarrow> bool" where
  "is_space c = (c \<in> set [CHR '' '', CHR 0x09, CHR 0x0A, CHR 0x0B, CHR 0x0C, CHR 0x0D])"

definition digit_val :: "char \<Rightarrow> nat" where
  "digit_val c = of_char c - 48"

definition digits_val :: "string \<Rightarrow> nat" where
  "digits_val ds = foldl (\<lambda>n c. 10 * n + digit_val c) 0 ds"

text \<open>
  \<^verbatim>\<open>int(s)\<close> on a string of ASCII characters: white space around the
  literal is skipped, then an optional sign and at least one decimal digit
  must make up all of it. \<open>None\<close> stands for the \<^verbatim>\<open>ValueError\<close>.
\<close>

definition py_int :: "string \<Rightarrow> int option" where
  "py_int s =
     (let t = rev (dropWhile is_space (rev (dropWhile is_space s))) in
      case t of
        [] \<Rightarrow> None
      | c # ds \<Rightarrow>
          if c = CHR ''-'' then
            (if ds \<noteq> [] \<and> list_all is_digit ds then Some (- int (digits_val ds)) else None)
          else if c = CHR ''+'' then
            (if ds \<noteq> [] \<and> list_all is_digit ds then Some (int (digits_val ds)) else None)
          else if list_all is_digit t then Some (int (digits_val t))
          else None)"

text \<open>
  \<^verbatim>\<open>datetime.strptime(s, "%Y-%m-%d").date()\<close>. The format compiles to the
  regular expression
  \<^verbatim>\<open>(\d\d\d\d)-(1[0-2]|0[1-9]|[1-9])-(3[0-1]|[1-2]\d|0[1-9]|[1-9]| [1-9])\<close>,
  which has to match the string up to its end; the date must then exist in
  the calendar (years start at 1). Every failure is a \<^verbatim>\<open>ValueError\<close>.
\<close>

definition month_token :: "string \<Rightarrow> nat option" where
  "month_token t =
     (case t of
        [a] \<Rightarrow> if a \<in> set ''123456789'' then Some (digit_val a) else None
      | [a, b] \<Rightarrow>
          if a = CHR ''1'' \<and> b \<in> set ''012'' then Some (10 + digit_val b)
          else if a = CHR ''0'' \<and> b \<in> set ''123456789'' then Some (digit_val b)
          else None
      | _ \<Rightarrow> None)"

definition day_token :: "string \<Rightarrow> nat option" where
  "day_token t =
     (case t of
        [a] \<Rightarrow> if a \<in> set ''123456789'' then Some (digit_val a) else None
      | [a, b] \<Rightarrow>
          if a = CHR ''3'' \<and> b \<in> set ''01'' then Some (30 + digit_val b)
          else if a \<in> set ''12'' \<and> is_digit b then Some (10 * digit_val a + digit_val b)
          else if a = CHR ''0'' \<and> b \<in> set ''123456789'' then Some (digit_val b)
          else if a = CHR '' '' \<and> b \<in> set ''123456789'' then Some (digit_val b)
          else None
      | _ \<Rightarrow> None)"

definition is_leap :: "nat \<Rightarrow> bool" where
  "is_leap y = (y mod 4 = 0 \<and> (y mod 100 \<noteq> 0 \<or> y mod 400 = 0))"

definition days_in_month :: "nat \<Rightarrow> nat \<Rightarrow> nat" where
  "days_in_month y m =
     (if m = 2 then (if is_leap y then 29 else 28)
      else if m \<in> {4, 6, 9, 11} then 30 else 31)"

definition make_date :: "nat \<Rightarrow> nat \<Rightarrow> nat \<Rightarrow> error + date" where
  "make_date y m d =
     (if 1 \<le> y \<and> 1 \<le> m \<and> m \<le> 12 \<and> 1 \<le> d \<and> d \<le> days_in_month y m
      then Inr \<lparr>d_year = y, d_month = m, d_day = d\<rparr>
      else Inl ValueError)"

definition strptime_date :: "string \<Rightarrow> error + date" where
  "strptime_date s =
     (case s of
        y1 # y2 # y3 # y4 # h # r \<Rightarrow>
          if list_all is_digit [y1, y2, y3, y4] \<and> h = CHR ''-'' then
            (let y = digits_val [y1, y2, y3, y4];
                 md = (case r of
                         a # b # c # t \<Rightarrow>
                           if c = CHR ''-'' \<and> month_token [a, b] \<noteq> None
                           then Some ([a, b], t)
                           else if b = CHR ''-'' then Some ([a], c # t) else None
                       | [a, b] \<Rightarrow> if b = CHR ''-'' then Some ([a], []) else None
                       | _ \<Rightarrow> None)
             in case md of
                  None \<Rightarrow> Inl ValueError
                | Some (mt, dt) \<Rightarrow>
                    (case (month_token mt, day_token dt) of
                       (Some m, Some d) \<Rightarrow> make_date y m d
                     | _ \<Rightarrow> Inl ValueError))
          else Inl ValueError
      | _ \<Rightarrow> Inl ValueError)"

subsection \<open>The filter compiler\<close>

text \<open>
  Modelled from the spec: the message ConferenceQueryForm of \<^verbatim>\<open>models.py\<close>,
  a raw filter clause of three strings.
\<close>

record ConferenceQueryForm =
  field :: string
  operator :: string
  "value" :: string

definition OPERATORS :: "(string \<times> string) list" where
  "OPERATORS =
     [(''EQ'', ''=''), (''GT'', ''>''), (''GTEQ'', ''>=''),
      (''LT'', ''<''), (''LTEQ'', ''<=''), (''NE'', ''!='')]"

definition FIELDS :: "(string \<times> string) list" where
  "FIELDS =
     [(''CITY'', ''city''), (''TOPIC'', ''topics''),
      (''MONTH'', ''month''), (''MAX_ATTENDEES'', ''maxAttendees'')]"

text \<open>
  The loop of \<^verbatim>\<open>_format_filters\<close>, with its two local variables as
  arguments. A missing key in either table is the \<^verbatim>\<open>KeyError\<close> the source
  turns into a bad request. \<^verbatim>\<open>inequality_field\<close> counts as set when it
  is neither \<^verbatim>\<open>None\<close> nor the empty string.
\<close>

fun format_filters_loop ::
  "ConferenceQueryForm list \<Rightarrow> string option \<Rightarrow> ConferenceQueryForm list \<Rightarrow>
     error + (string option \<times> ConferenceQueryForm list)" where
  "format_filters_loop [] inequality_field formatted_filters =
     Inr (inequality_field, formatted_filters)"
| "format_filters_loop (f # fs) inequality_field formatted_filters =
     (case (map_of FIELDS (field f), map_of OPERATORS (operator f)) of
        (Some fld, Some opr) \<Rightarrow>
          (let filtr = f\<lparr>field := fld, operator := opr\<rparr> in
           if opr \<noteq> ''='' then
             (if inequality_field \<noteq> None \<and> inequality_field \<noteq> Some []
                 \<and> inequality_field \<noteq> Some fld
              then Inl MultipleInequalityFields
              else format_filters_loop fs (Some fld) (formatted_filters @ [filtr]))
           else format_filters_loop fs inequality_field (formatted_filters @ [filtr]))
      | _ \<Rightarrow> Inl InvalidFilterFieldOrOperator)"

definition format_filters ::
  "ConferenceQueryForm list \<Rightarrow> error + (string option \<times> ConferenceQueryForm list)" where
  "format_filters filters = format_filters_loop filters None []"

subsection \<open>The conference query\<close>

text \<open>
  An ndb query as the module builds it: the sort orders in the order they
  were added, and the filter nodes, which the store conjoins.
\<close>

datatype filter_value = StrVal string | IntVal int

record FilterNode =
  fn_field :: string
  fn_operator :: string
  fn_value :: filter_value

record query =
  orders :: "string list"
  filters :: "FilterNode list"

definition Conference_query :: query where
  "Conference_query = \<lparr>orders = [], filters = []\<rparr>"

definition order :: "query \<Rightarrow> string \<Rightarrow> query" where
  "order q p = q\<lparr>orders := orders q @ [p]\<rparr>"

definition filter_query :: "query \<Rightarrow> FilterNode \<Rightarrow> query" where
  "filter_query q n = q\<lparr>filters := filters q @ [n]\<rparr>"

text \<open>The loop over the formatted filters in \<^verbatim>\<open>_get_query\<close>.\<close>

fun apply_filters :: "query \<Rightarrow> ConferenceQueryForm list \<Rightarrow> error + query" where
  "apply_filters q [] = Inr q"
| "apply_filters q (filtr # fs) =
     (if field filtr \<in> set [''month'', ''maxAttendees''] then
        (case py_int (value filtr) of
           None \<Rightarrow> Inl InvalidFilterValue
         | Some n \<Rightarrow>
             apply_filters
               (filter_query q \<lparr>fn_field = field filtr, fn_operator = operator filtr,
                                fn_value = IntVal n\<rparr>) fs)
      else
        apply_filters
          (filter_query q \<lparr>fn_field = field filtr, fn_operator = operator filtr,
                           fn_value = StrVal (value filtr)\<rparr>) fs)"

definition get_query :: "ConferenceQueryForm list \<Rightarrow> error + query" where
  "get_query request_filters =
     (let q = Conference_query in
      case format_filters request_filters of
        Inl e \<Rightarrow> Inl e
      | Inr (inequality_filter, fs) \<Rightarrow>
          (let q1 = (if inequality_filter = None \<or> inequality_filter = Some []
                     then order q ''name''
                     else order (order q (the inequality_filter)) ''name'')
           in apply_filters q1 fs))"

subsection \<open>Creating a conference\<close>

text \<open>
  \<^verbatim>\<open>DEFAULTS\<close>: the values a request gets for fields it leaves unset
  (\<^verbatim>\<open>None\<close>, or \<^verbatim>\<open>[]\<close> for the repeated field).
\<close>

definition DEFAULT_city :: string where
  "DEFAULT_city = ''Default City''"

definition DEFAULT_maxAttendees :: int where
  "DEFAULT_maxAttendees = 0"

definition DEFAULT_seatsAvailable :: int where
  "DEFAULT_seatsAvailable = 0"

definition DEFAULT_topics :: "string list" where
  "DEFAULT_topics = [''Default'', ''Topic'']"

text \<open>
  A date entry of the \<^verbatim>\<open>data\<close> dictionary: a string is replaced by the
  date parsed from its first ten characters; an empty string is false in the
  condition and stays as it is.
\<close>

definition convert_date :: "string option \<Rightarrow> error + (string + date) option" where
  "convert_date d =
     (case d of
        None \<Rightarrow> Inr None
      | Some str \<Rightarrow>
          if str = [] then Inr (Some (Inl str))
          else (case strptime_date (take 10 str) of
                  Inl e \<Rightarrow> Inl e
                | Inr dt \<Rightarrow> Inr (Some (Inr dt))))"

text \<open>
  What \<^verbatim>\<open>ndb.DateProperty\<close> does with the entry when the entity is built:
  a value that is not a date is refused.
\<close>

definition validate_date :: "(string + date) option \<Rightarrow> error + date option" where
  "validate_date d =
     (case d of
        None \<Rightarrow> Inr None
      | Some (Inl str) \<Rightarrow> Inl BadValueError
      | Some (Inr dt) \<Rightarrow> Inr (Some dt))"

text \<open>
  \<^verbatim>\<open>_create_conference_object\<close>. \<open>c_key\<close> is the websafe form of the key
  the datastore allocates (\<^verbatim>\<open>Conference.allocate_ids\<close>), which the store
  chooses among the keys not in use. The confirmation task queued after the
  write is outside the model.
\<close>

definition create_conference_object ::
  "user option \<Rightarrow> ConferenceForm \<Rightarrow> string \<Rightarrow> datastore \<Rightarrow>
     (error + ConferenceForm) \<times> datastore" where
  "create_conference_object usr request c_key s =
     (case usr of
        None \<Rightarrow> (Inl Unauthenticated, s)
      | Some u \<Rightarrow>
          (let user_id = get_user_id u in
           if cf_name request = None \<or> cf_name request = Some [] then
             (Inl MissingRequiredField, s)
           else
             (let data_city = (case cf_city request of
                                 None \<Rightarrow> DEFAULT_city | Some c \<Rightarrow> c);
                  data_maxAttendees = (case cf_maxAttendees request of
                                         None \<Rightarrow> DEFAULT_maxAttendees | Some m \<Rightarrow> m);
                  data_seatsAvailable = (case cf_seatsAvailable request of
                                           None \<Rightarrow> DEFAULT_seatsAvailable | Some n \<Rightarrow> n);
                  data_topics = (if cf_topics request = [] then DEFAULT_topics
                                 else cf_topics request);
                  request1 = request\<lparr>cf_city := Some data_city,
                                      cf_maxAttendees := Some data_maxAttendees,
                                      cf_seatsAvailable := Some data_seatsAvailable,
                                      cf_topics := data_topics\<rparr>
              in
              case convert_date (cf_startDate request) of
                Inl e \<Rightarrow> (Inl e, s)
              | Inr data_startDate \<Rightarrow>
                  (let data_month = (case data_startDate of
                                       Some (Inr dt) \<Rightarrow> int (d_month dt)
                                     | _ \<Rightarrow> 0)
                   in
                   case convert_date (cf_endDate request) of
                     Inl e \<Rightarrow> (Inl e, s)
                   | Inr data_endDate \<Rightarrow>
                       (let data_seatsAvailable' =
                              (if data_maxAttendees > 0 then data_maxAttendees
                               else data_seatsAvailable);
                            request2 =
                              (if data_maxAttendees > 0
                               then request1\<lparr>cf_seatsAvailable := Some data_maxAttendees\<rparr>
                               else request1);
                            request3 = request2\<lparr>cf_organizerUserId := Some user_id\<rparr>
                        in
                        case (validate_date data_startDate, validate_date data_endDate) of
                          (Inr sd, Inr ed) \<Rightarrow>
                            (Inr request3,
                             put_conference
                               (c_key,
                                \<lparr>name = the (cf_name request),
                                 description = cf_description request,
                                 organizerUserId = user_id,
                                 topics = data_topics,
                                 city = data_city,
                                 startDate = sd,
                                 month = data_month,
                                 maxAttendees = data_maxAttendees,
                                 seatsAvailable = data_seatsAvailable',
                                 endDate = ed\<rparr>) s)
                        | _ \<Rightarrow> (Inl BadValueError, s))))))"

subsection \<open>Updating a conference\<close>

text \<open>\<^verbatim>\<open>str(n)\<close> for a natural number, and \<^verbatim>\<open>str(date)\<close>: \<^verbatim>\<open>YYYY-MM-DD\<close>.\<close>

fun str_digits :: "nat \<Rightarrow> nat \<Rightarrow> string" where
  "str_digits 0 n = []"
| "str_digits (Suc k) n = str_digits k (n div 10) @ [char_of (48 + n mod 10)]"

definition str_date :: "date \<Rightarrow> string" where
  "str_date d =
     str_digits 4 (d_year d) @ ''-'' @ str_digits 2 (d_month d) @ ''-'' @ str_digits 2 (d_day d)"

text \<open>
  \<^verbatim>\<open>_copy_conference_to_form\<close>. A date field is copied as \<^verbatim>\<open>str\<close> of its
  value, which is the text \<^verbatim>\<open>None\<close> for an unset date.
\<close>

definition copy_conference_to_form :: "string \<times> Conference \<Rightarrow> string \<Rightarrow> ConferenceForm" where
  "copy_conference_to_form e dn =
     (let conf = snd e in
      \<lparr>cf_name = Some (name conf),
       cf_description = description conf,
       cf_organizerUserId = Some (organizerUserId conf),
       cf_topics = topics conf,
       cf_city = Some (city conf),
       cf_startDate = Some (case startDate conf of None \<Rightarrow> ''None'' | Some d \<Rightarrow> str_date d),
       cf_month = Some (month conf),
       cf_maxAttendees = Some (maxAttendees conf),
       cf_seatsAvailable = Some (seatsAvailable conf),
       cf_endDate = Some (case endDate conf of None \<Rightarrow> ''None'' | Some d \<Rightarrow> str_date d),
       cf_websafeKey = Some (fst e),
       cf_organizerDisplayName = (if dn \<noteq> [] then Some dn else None)\<rparr>)"

text \<open>
  The name \<^verbatim>\<open>_getUserId\<close> that \<^verbatim>\<open>_update_conference_object\<close> calls is
  bound nowhere: the module defines no such function and imports only
  \<^verbatim>\<open>get_user_id\<close> from \<^verbatim>\<open>utils\<close>. Evaluating the name raises.
\<close>

definition getUserId_call :: "error + string" where
  "getUserId_call = Inl (NameError ''_getUserId'')"

text \<open>
  The loop of \<^verbatim>\<open>_update_conference_object\<close> that copies the fields of the
  request that carry data, taken in the order the message declares them.
  The dates are parsed from the whole string here. The fields that are no
  property of the entity (the websafe keys, the organizer's display name)
  leave no trace in the datastore.
\<close>

definition patch_conference :: "ConferenceForm \<Rightarrow> Conference \<Rightarrow> error + Conference" where
  "patch_conference request conf =
     (let c1 = (case cf_name request of None \<Rightarrow> conf | Some v \<Rightarrow> conf\<lparr>name := v\<rparr>);
          c2 = (case cf_description request of
                  None \<Rightarrow> c1 | Some v \<Rightarrow> c1\<lparr>description := Some v\<rparr>);
          c3 = (case cf_organizerUserId request of
                  None \<Rightarrow> c2 | Some v \<Rightarrow> c2\<lparr>organizerUserId := v\<rparr>);
          c4 = (if cf_topics request = [] then c3 else c3\<lparr>topics := cf_topics request\<rparr>);
          c5 = (case cf_city request of None \<Rightarrow> c4 | Some v \<Rightarrow> c4\<lparr>city := v\<rparr>)
      in
      case (case cf_startDate request of
              None \<Rightarrow> Inr c5
            | Some v \<Rightarrow>
                (case strptime_date v of
                   Inl e \<Rightarrow> Inl e
                 | Inr d \<Rightarrow> Inr (c5\<lparr>month := int (d_month d), startDate := Some d\<rparr>))) of
        Inl e \<Rightarrow> Inl e
      | Inr c6 \<Rightarrow>
          (let c7 = (case cf_month request of None \<Rightarrow> c6 | Some v \<Rightarrow> c6\<lparr>month := v\<rparr>);
               c8 = (case cf_maxAttendees request of
                       None \<Rightarrow> c7 | Some v \<Rightarrow> c7\<lparr>maxAttendees := v\<rparr>);
               c9 = (case cf_seatsAvailable request of
                       None \<Rightarrow> c8 | Some v \<Rightarrow> c8\<lparr>seatsAvailable := v\<rparr>)
           in
           case cf_endDate request of
             None \<Rightarrow> Inr c9
           | Some v \<Rightarrow>
               (case strptime_date v of
                  Inl e \<Rightarrow> Inl e
                | Inr d \<Rightarrow> Inr (c9\<lparr>endDate := Some d\<rparr>))))"

text \<open>
  \<^verbatim>\<open>_update_conference_object\<close>, the body under \<^verbatim>\<open>@ndb.transactional()\<close>.
  \<open>wsck\<close> is \<^verbatim>\<open>request.websafeConferenceKey\<close>.
\<close>

definition update_conference_object_body ::
  "user option \<Rightarrow> ConferenceForm \<Rightarrow> string \<Rightarrow> datastore \<Rightarrow>
     error + (ConferenceForm \<times> datastore)" where
  "update_conference_object_body usr request wsck s =
     (case usr of
        None \<Rightarrow> Inl Unauthenticated
      | Some u \<Rightarrow>
          (case getUserId_call of
             Inl e \<Rightarrow> Inl e
           | Inr user_id \<Rightarrow>
               (case conferences s wsck of
                  None \<Rightarrow> Inl (ConferenceNotFound wsck)
                | Some conf \<Rightarrow>
                    if user_id \<noteq> organizerUserId conf then Inl NotOwner
                    else
                      (case patch_conference request conf of
                         Inl e \<Rightarrow> Inl e
                       | Inr conf' \<Rightarrow>
                           (let s' = put_conference (wsck, conf') s in
                            case profiles s' user_id of
                              None \<Rightarrow> Inl AttributeError
                            | Some prof \<Rightarrow>
                                Inr (copy_conference_to_form (wsck, conf') (displayName prof),
                                     s'))))))"

definition update_conference_object ::
  "user option \<Rightarrow> ConferenceForm \<Rightarrow> string \<Rightarrow> datastore \<Rightarrow>
     (error + ConferenceForm) \<times> datastore" where
  "update_conference_object usr request wsck s =
     transactional (update_conference_object_body usr request wsck) s"

subsection \<open>The seat invariant\<close>

text \<open>
  The users registered for a conference: those whose Profile lists its key.
\<close>

definition registered :: "datastore \<Rightarrow> string \<Rightarrow> string set" where
  "registered s k =
     {uid. \<exists>p. profiles s uid = Some p \<and> k \<in> set (conferenceKeysToAttend p)}"


text \<open>
  What the registration code relies on besides: finitely many Profiles, none
  listing a key twice, none listing a key of no Conference.
\<close>

definition well_formed :: "datastore \<Rightarrow> bool" where
  "well_formed s =
     (finite (dom (profiles s))
      \<and> (\<forall>uid p. profiles s uid = Some p \<longrightarrow>
            distinct (conferenceKeysToAttend p)
            \<and> set (conferenceKeysToAttend p) \<subseteq> dom (conferences s)))"

text \<open>
  The datastores a sequence of calls leads to from the empty one. \<open>ok\<close>
  restricts the requests createConference is called with. A call that fails
  leaves the datastore as it was, so only the datastore after each call
  matters. The key of a new conference is one the store does not use yet.
\<close>

inductive reachable :: "(ConferenceForm \<Rightarrow> bool) \<Rightarrow> datastore \<Rightarrow> bool"
  for ok :: "ConferenceForm \<Rightarrow> bool" where
  init: "reachable ok empty_datastore"
| create:
    "reachable ok s \<Longrightarrow> ok request \<Longrightarrow> c_key \<notin> dom (conferences s) \<Longrightarrow>
     reachable ok (snd (create_conference_object usr request c_key s))"
| register:
    "reachable ok s \<Longrightarrow> reachable ok (snd (register_for_conference usr wsck s))"
| unregister:
    "reachable ok s \<Longrightarrow> reachable ok (snd (unregister_from_conference usr wsck s))"
| profile:
    "reachable ok s \<Longrightarrow> reachable ok (snd (do_profile usr save_request s))"


subsection \<open>Notions the properties are stated with\<close>

text \<open>
  A clause passes the whitelists when both tables have its names; it is an
  inequality when its operator is not \<^verbatim>\<open>EQ\<close>. \<open>format_clause\<close> is the clause
  with both names translated, as the compiler returns it.
\<close>

definition whitelisted :: "ConferenceQueryForm \<Rightarrow> bool" where
  "whitelisted f = (field f \<in> set (map fst FIELDS) \<and> operator f \<in> set (map fst OPERATORS))"

definition is_inequality :: "ConferenceQueryForm \<Rightarrow> bool" where
  "is_inequality f = (operator f \<noteq> ''EQ'')"

definition format_clause :: "ConferenceQueryForm \<Rightarrow> ConferenceQueryForm" where
  "format_clause f =
     f\<lparr>field := the (map_of FIELDS (field f)), operator := the (map_of OPERATORS (operator f))\<rparr>"

text \<open>Two clauses use inequality operators on two distinct fields.\<close>

definition inequality_conflict :: "ConferenceQueryForm list \<Rightarrow> bool" where
  "inequality_conflict fs =
     (\<exists>f \<in> set fs. \<exists>g \<in> set fs. is_inequality f \<and> is_inequality g \<and> field f \<noteq> field g)"

text \<open>
  The filter node of a formatted clause: an integer value on the numeric
  properties, the string itself on the others. A clause is uncoercible when
  it is on a numeric property and \<^verbatim>\<open>int\<close> refuses its value.
\<close>

definition filter_node :: "ConferenceQueryForm \<Rightarrow> FilterNode" where
  "filter_node f =
     \<lparr>fn_field = field f, fn_operator = operator f,
      fn_value = (if field f \<in> set [''month'', ''maxAttendees'']
                  then IntVal (the (py_int (value f))) else StrVal (value f))\<rparr>"

definition uncoercible :: "ConferenceQueryForm \<Rightarrow> bool" where
  "uncoercible f = (field f \<in> set [''month'', ''maxAttendees''] \<and> py_int (value f) = None)"

subsection \<open>Notions for the seat invariant and the dates\<close>


text \<open>No restriction on the requests createConference is called with.\<close>

definition any_request :: "ConferenceForm \<Rightarrow> bool" where
  "any_request request = True"

text \<open>The Profile a call works on: the stored one, or a new one with no keys.\<close>

definition loaded :: "datastore \<Rightarrow> string \<Rightarrow> Profile \<Rightarrow> bool" where
  "loaded s uid prof =
     (profiles s uid = Some prof \<or> profiles s uid = None \<and> conferenceKeysToAttend prof = [])"

text \<open>
  A date string of a request is refused when it is not empty and
  \<^verbatim>\<open>strptime\<close> fails on its first ten characters; \<open>date_read\<close> is the date
  \<^verbatim>\<open>strptime\<close> reads from those characters.
\<close>

definition date_refused :: "string option \<Rightarrow> bool" where
  "date_refused d =
     (case d of
        None \<Rightarrow> False
      | Some str \<Rightarrow>
          str \<noteq> [] \<and> (case strptime_date (take 10 str) of Inl e \<Rightarrow> True | Inr dt \<Rightarrow> False))"

definition date_read :: "string option \<Rightarrow> date option" where
  "date_read d =
     (case d of
        None \<Rightarrow> None
      | Some str \<Rightarrow>
          (case strptime_date (take 10 str) of Inl e \<Rightarrow> None | Inr dt \<Rightarrow> Some dt))"

subsection \<open>Example data\<close>

definition alice :: user where
  "alice = \<lparr>ident = ''alice'', nickname = ''Alice'', email = ''alice@example.com''\<rparr>"

definition bob :: user where
  "bob = \<lparr>ident = ''bob'', nickname = ''Bob'', email = ''bob@example.com''\<rparr>"

definition alice_profile :: Profile where
  "alice_profile =
     \<lparr>userId = ''alice'', displayName = ''Alice'', mainEmail = ''alice@example.com'',
      teeShirtSize = ''NOT_SPECIFIED'', conferenceKeysToAttend = []\<rparr>"

definition bob_profile :: Profile where
  "bob_profile =
     \<lparr>userId = ''bob'', displayName = ''Bob'', mainEmail = ''bob@example.com'',
      teeShirtSize = ''NOT_SPECIFIED'', conferenceKeysToAttend = []\<rparr>"

definition pycon :: Conference where
  "pycon =
     \<lparr>name = ''PyCon'', description = None, organizerUserId = ''bob'',
      topics = [''Python''], city = ''London'', startDate = None, month = 0,
      maxAttendees = 2, seatsAvailable = 2, endDate = None\<rparr>"

text \<open>One conference with two free seats and no Profile yet.\<close>

definition ds_open :: datastore where
  "ds_open = \<lparr>profiles = Map.empty, conferences = [''key1'' \<mapsto> pycon]\<rparr>"

text \<open>Alice attends the conference; one seat is left.\<close>

definition ds_attending :: datastore where
  "ds_attending =
     \<lparr>profiles = [''alice'' \<mapsto> alice_profile\<lparr>conferenceKeysToAttend := [''key1'']\<rparr>],
      conferences = [''key1'' \<mapsto> pycon\<lparr>seatsAvailable := 1\<rparr>]\<rparr>"

text \<open>The conference is full; Bob has a Profile and attends nothing.\<close>

definition ds_full :: datastore where
  "ds_full =
     \<lparr>profiles = [''bob'' \<mapsto> bob_profile],
      conferences = [''key1'' \<mapsto> pycon\<lparr>seatsAvailable := 0\<rparr>]\<rparr>"

definition london_filter :: ConferenceQueryForm where
  "london_filter = \<lparr>field = ''CITY'', operator = ''EQ'', value = ''London''\<rparr>"

definition big_filter :: ConferenceQueryForm where
  "big_filter = \<lparr>field = ''MAX_ATTENDEES'', operator = ''GT'', value = ''10''\<rparr>"

definition huge_filter :: ConferenceQueryForm where
  "huge_filter = \<lparr>field = ''MAX_ATTENDEES'', operator = ''LTEQ'', value = ''500''\<rparr>"

definition summer_filter :: ConferenceQueryForm where
  "summer_filter = \<lparr>field = ''MONTH'', operator = ''GTEQ'', value = ''6''\<rparr>"

definition june_filter :: ConferenceQueryForm where
  "june_filter = \<lparr>field = ''MONTH'', operator = ''EQ'', value = ''june''\<rparr>"

text \<open>Requests to create a conference, and the datastores they lead to.\<close>

definition pycon_request :: ConferenceForm where
  "pycon_request =
     \<lparr>cf_name = Some ''PyCon'', cf_description = None, cf_organizerUserId = None,
      cf_topics = [], cf_city = None, cf_startDate = Some ''2015-06-01T09:00:00'',
      cf_month = None, cf_maxAttendees = Some 2, cf_seatsAvailable = None,
      cf_endDate = None, cf_websafeKey = None, cf_organizerDisplayName = None\<rparr>"


definition undated_request :: ConferenceForm where
  "undated_request = pycon_request\<lparr>cf_startDate := Some ''June 1st''\<rparr>"

definition ds_created :: datastore where
  "ds_created = snd (create_conference_object (Some bob) pycon_request ''key1'' empty_datastore)"


definition ds_one :: datastore where
  "ds_one = snd (register_for_conference (Some alice) ''key1'' ds_created)"

definition name_filter :: ConferenceQueryForm where
  "name_filter = \<lparr>field = ''NAME'', operator = ''EQ'', value = ''PyCon''\<rparr>"

section \<open>Properties\<close>

lemmas ex_defs = alice_def bob_def alice_profile_def bob_profile_def pycon_def ds_open_def
  ds_attending_def ds_full_def get_user_id_def

lemmas filter_ex_defs = london_filter_def big_filter_def huge_filter_def summer_filter_def
  june_filter_def

lemmas date_defs = strptime_date_def month_token_def day_token_def make_date_def
  days_in_month_def is_leap_def is_digit_def digits_val_def digit_val_def

subsection \<open>Registration\<close>

lemma get_profile_from_user_Some:
  "get_profile_from_user (Some u) s = Inr ((key, prof), s1) \<Longrightarrow>
     key = get_user_id u \<and> s1 = put_profile (key, prof) s \<and> conferences s1 = conferences s
     \<and> profiles s1 key = Some prof
     \<and> (case profiles s key of
          Some p \<Rightarrow> prof = p \<and> s1 = s
        | None \<Rightarrow> conferenceKeysToAttend prof = [])"
  by (auto simp: get_profile_from_user_def put_profile_def Let_def map_upd_triv
      split: option.splits)



text \<open>
  C5. Unregistration, as the code does it. For an authenticated caller with
  Profile \<open>prof\<close> (the stored one, or the one \<^verbatim>\<open>_get_profile_from_user\<close>
  creates for a caller without a Profile) and an existing conference: when
  \<open>prof\<close> lists the key, unregisterFromConference returns true and leaves
  the datastore with the key's first occurrence removed from the list (so
  the key is gone from a list without duplicates) and one seat more on the
  Conference, both written. When \<open>prof\<close> does not list the key it returns
  false, which is a result and not an error, and the Conference is as
  before. A datastore that already held the caller's Profile is then
  unchanged; for a caller without a Profile the new default Profile is
  written, and nothing else differs.
\<close>

theorem unregister_semantics:
  assumes "get_profile_from_user (Some u) s = Inr ((key, prof), s1)"
      and "conferences s wsck = Some conf"
  shows "(wsck \<in> set (conferenceKeysToAttend prof) \<longrightarrow>
            unregister_from_conference (Some u) wsck s =
              (Inr True,
               s\<lparr>profiles := (profiles s)(get_user_id u \<mapsto>
                     prof\<lparr>conferenceKeysToAttend := remove1 wsck (conferenceKeysToAttend prof)\<rparr>),
                 conferences := (conferences s)(wsck \<mapsto>
                     conf\<lparr>seatsAvailable := seatsAvailable conf + 1\<rparr>)\<rparr>)
            \<and> (distinct (conferenceKeysToAttend prof) \<longrightarrow>
                  wsck \<notin> set (remove1 wsck (conferenceKeysToAttend prof))))
       \<and> (wsck \<notin> set (conferenceKeysToAttend prof) \<longrightarrow>
            unregister_from_conference (Some u) wsck s =
              (Inr False, s\<lparr>profiles := (profiles s)(get_user_id u \<mapsto> prof)\<rparr>)
            \<and> (profiles s (get_user_id u) \<noteq> None \<longrightarrow>
                  unregister_from_conference (Some u) wsck s = (Inr False, s))
            \<and> (profiles s (get_user_id u) = None \<longrightarrow>
                  prof = \<lparr>userId = get_user_id u, displayName = nickname u,
                          mainEmail = email u,
                          teeShirtSize = str_TeeShirtSize NOT_SPECIFIED,
                          conferenceKeysToAttend = []\<rparr>))"
  using assms get_profile_from_user_Some[OF assms(1)]
  by (auto simp add: unregister_from_conference_def conference_registration_def
      transactional_def conference_registration_body_def put_profile_def put_conference_def
      get_profile_from_user_def Let_def map_upd_triv split: option.splits)

theorem unregister_semantics_witness:
  "unregister_from_conference (Some alice) ''key1'' ds_attending =
     (Inr True,
      \<lparr>profiles = [''alice'' \<mapsto> alice_profile],
       conferences = [''key1'' \<mapsto> pycon\<lparr>seatsAvailable := 2\<rparr>]\<rparr>)
   \<and> unregister_from_conference (Some bob) ''key1'' ds_full = (Inr False, ds_full)
   \<and> unregister_from_conference (Some alice) ''key1'' ds_open =
       (Inr False,
        \<lparr>profiles = [''alice'' \<mapsto> alice_profile],
         conferences = [''key1'' \<mapsto> pycon]\<rparr>)"
proof -
  have a1: "get_profile_from_user (Some alice) ds_attending =
              Inr ((''alice'', alice_profile\<lparr>conferenceKeysToAttend := [''key1'']\<rparr>),
                   ds_attending)"
    by (simp add: get_profile_from_user_def put_profile_def Let_def ex_defs)
  have a2: "conferences ds_attending ''key1'' = Some (pycon\<lparr>seatsAvailable := 1\<rparr>)"
    by (simp add: ex_defs)
  have b1: "get_profile_from_user (Some bob) ds_full = Inr ((''bob'', bob_profile), ds_full)"
    by (simp add: get_profile_from_user_def put_profile_def Let_def ex_defs)
  have b2: "conferences ds_full ''key1'' = Some (pycon\<lparr>seatsAvailable := 0\<rparr>)"
    by (simp add: ex_defs)
  have b3: "''key1'' \<notin> set (conferenceKeysToAttend bob_profile)"
    by (simp add: ex_defs)
  have b4: "profiles ds_full (get_user_id bob) \<noteq> None"
    by (simp add: ex_defs)
  have c1: "get_profile_from_user (Some alice) ds_open =
              Inr ((''alice'', alice_profile), put_profile (''alice'', alice_profile) ds_open)"
    by (simp add: get_profile_from_user_def put_profile_def Let_def ex_defs)
  have c2: "conferences ds_open ''key1'' = Some pycon"
    by (simp add: ex_defs)
  have c3: "''key1'' \<notin> set (conferenceKeysToAttend alice_profile)"
    by (simp add: ex_defs)
  have a: "unregister_from_conference (Some alice) ''key1'' ds_attending =
     (Inr True,
      \<lparr>profiles = [''alice'' \<mapsto> alice_profile],
       conferences = [''key1'' \<mapsto> pycon\<lparr>seatsAvailable := 2\<rparr>]\<rparr>)"
    using unregister_semantics[OF a1 a2] by (simp add: ex_defs)
  have b: "unregister_from_conference (Some bob) ''key1'' ds_full = (Inr False, ds_full)"
    using unregister_semantics[OF b1 b2] b3 b4 by blast
  have c: "unregister_from_conference (Some alice) ''key1'' ds_open =
       (Inr False,
        \<lparr>profiles = [''alice'' \<mapsto> alice_profile],
         conferences = [''key1'' \<mapsto> pycon]\<rparr>)"
    using unregister_semantics[OF c1 c2] c3 by (simp add: ex_defs)
  show ?thesis using a b c by simp
qed

text \<open>
  As stated for every authenticated caller the absent-key case fails: a
  caller without a Profile who unregisters from a conference gets false,
  and the datastore after the call holds a Profile it did not hold before,
  because the Profile \<^verbatim>\<open>_get_profile_from_user\<close> creates is committed with
  the transaction.
\<close>

theorem unregister_semantics_counterexample:
  "profiles ds_open ''alice'' = None
   \<and> conferences ds_open ''key1'' = Some pycon
   \<and> fst (unregister_from_conference (Some alice) ''key1'' ds_open) = Inr False
   \<and> profiles (snd (unregister_from_conference (Some alice) ''key1'' ds_open)) ''alice''
       = Some alice_profile
   \<and> snd (unregister_from_conference (Some alice) ''key1'' ds_open) \<noteq> ds_open"
proof -
  have e: "unregister_from_conference (Some alice) ''key1'' ds_open =
       (Inr False,
        \<lparr>profiles = [''alice'' \<mapsto> alice_profile],
         conferences = [''key1'' \<mapsto> pycon]\<rparr>)"
    by (simp add: unregister_from_conference_def conference_registration_def
        transactional_def conference_registration_body_def get_profile_from_user_def
        put_profile_def put_conference_def Let_def ex_defs)
  have n: "\<lparr>profiles = [''alice'' \<mapsto> alice_profile],
            conferences = [''key1'' \<mapsto> pycon]\<rparr> \<noteq> ds_open"
  proof
    assume "\<lparr>profiles = [''alice'' \<mapsto> alice_profile],
             conferences = [''key1'' \<mapsto> pycon]\<rparr> = ds_open"
    then have "profiles \<lparr>profiles = [''alice'' \<mapsto> alice_profile],
             conferences = [''key1'' \<mapsto> pycon]\<rparr> ''alice'' = profiles ds_open ''alice''"
      by simp
    then show False by (simp add: ds_open_def)
  qed
  show ?thesis using n by (simp add: e) (simp add: ds_open_def)
qed

subsection \<open>The invariants of the datastore\<close>



lemma registered_conferences [simp]:
  "registered (s\<lparr>conferences := cs\<rparr>) k = registered s k"
  by (simp add: registered_def)




lemma get_profile_loaded:
  "get_profile_from_user usr s = Inr ((key, prof), s1) \<Longrightarrow>
     loaded s key prof \<and> s1 = s\<lparr>profiles := (profiles s)(key \<mapsto> prof)\<rparr>"
  by (auto simp: get_profile_from_user_def put_profile_def Let_def loaded_def map_upd_triv
      split: option.splits)


lemma loaded_well_formed:
  "loaded s uid prof \<Longrightarrow> well_formed s \<Longrightarrow>
     distinct (conferenceKeysToAttend prof)
     \<and> set (conferenceKeysToAttend prof) \<subseteq> dom (conferences s)"
  by (auto simp: loaded_def well_formed_def)

lemma well_formed_upd:
  assumes "well_formed s"
      and "distinct (conferenceKeysToAttend p)"
      and "set (conferenceKeysToAttend p) \<subseteq> dom cs"
      and "dom (conferences s) \<subseteq> dom cs"
  shows "well_formed (s\<lparr>profiles := (profiles s)(uid \<mapsto> p), conferences := cs\<rparr>)"
  unfolding well_formed_def
proof (intro conjI allI impI)
  show "finite (dom (profiles (s\<lparr>profiles := (profiles s)(uid \<mapsto> p), conferences := cs\<rparr>)))"
    using assms(1) by (simp add: well_formed_def)
next
  fix u q
  assume a: "profiles (s\<lparr>profiles := (profiles s)(uid \<mapsto> p), conferences := cs\<rparr>) u = Some q"
  show "distinct (conferenceKeysToAttend q)"
  proof (cases "u = uid")
    case True
    with a assms(2) show ?thesis by simp
  next
    case False
    with a assms(1) show ?thesis by (simp add: well_formed_def)
  qed
  show "set (conferenceKeysToAttend q)
          \<subseteq> dom (conferences (s\<lparr>profiles := (profiles s)(uid \<mapsto> p), conferences := cs\<rparr>))"
  proof (cases "u = uid")
    case True
    with a assms(3) show ?thesis by simp
  next
    case False
    with a have "profiles s u = Some q" by simp
    with assms(1) have "set (conferenceKeysToAttend q) \<subseteq> dom (conferences s)"
      unfolding well_formed_def by blast
    with assms(4) show ?thesis by auto
  qed
qed


lemma same_keys_well_formed:
  assumes "loaded s uid prof" and "well_formed s"
      and "conferenceKeysToAttend p = conferenceKeysToAttend prof"
  shows "well_formed (s\<lparr>profiles := (profiles s)(uid \<mapsto> p)\<rparr>)"
  using loaded_well_formed[OF assms(1,2)] assms(2,3)
  by (auto simp: well_formed_def)



text \<open>What a registration call can do to the datastore.\<close>

lemma conference_registration_cases:
  assumes "conference_registration usr wsck reg s = (r, s')"
  shows "(\<exists>e. r = Inl e) \<and> s' = s
     \<or> (\<exists>uid prof conf. loaded s uid prof \<and> conferences s wsck = Some conf \<and>
          (reg \<and> wsck \<notin> set (conferenceKeysToAttend prof) \<and> 0 < seatsAvailable conf
             \<and> r = Inr True
             \<and> s' = s\<lparr>profiles := (profiles s)(uid \<mapsto>
                        prof\<lparr>conferenceKeysToAttend := conferenceKeysToAttend prof @ [wsck]\<rparr>),
                      conferences := (conferences s)(wsck \<mapsto>
                        conf\<lparr>seatsAvailable := seatsAvailable conf - 1\<rparr>)\<rparr>
           \<or> \<not> reg \<and> wsck \<in> set (conferenceKeysToAttend prof) \<and> r = Inr True
             \<and> s' = s\<lparr>profiles := (profiles s)(uid \<mapsto>
                        prof\<lparr>conferenceKeysToAttend :=
                               remove1 wsck (conferenceKeysToAttend prof)\<rparr>),
                      conferences := (conferences s)(wsck \<mapsto>
                        conf\<lparr>seatsAvailable := seatsAvailable conf + 1\<rparr>)\<rparr>
           \<or> \<not> reg \<and> wsck \<notin> set (conferenceKeysToAttend prof) \<and> r = Inr False
             \<and> s' = s\<lparr>profiles := (profiles s)(uid \<mapsto> prof)\<rparr>))"
proof (cases "get_profile_from_user usr s")
  case (Inl e)
  with assms show ?thesis
    by (auto simp add: conference_registration_def transactional_def
        conference_registration_body_def)
next
  case (Inr x)
  obtain key prof s1 where x: "x = ((key, prof), s1)" by (cases x) auto
  from get_profile_loaded[OF Inr[unfolded x]]
  have l: "loaded s key prof" and s1: "s1 = s\<lparr>profiles := (profiles s)(key \<mapsto> prof)\<rparr>"
    by simp_all
  show ?thesis
  proof (cases "conferences s wsck")
    case None
    with assms Inr x s1 show ?thesis
      by (auto simp add: conference_registration_def transactional_def
          conference_registration_body_def)
  next
    case (Some conf)
    have "(\<exists>e. r = Inl e) \<and> s' = s \<or>
          (reg \<and> wsck \<notin> set (conferenceKeysToAttend prof) \<and> 0 < seatsAvailable conf
             \<and> r = Inr True
             \<and> s' = s\<lparr>profiles := (profiles s)(key \<mapsto>
                        prof\<lparr>conferenceKeysToAttend := conferenceKeysToAttend prof @ [wsck]\<rparr>),
                      conferences := (conferences s)(wsck \<mapsto>
                        conf\<lparr>seatsAvailable := seatsAvailable conf - 1\<rparr>)\<rparr>
           \<or> \<not> reg \<and> wsck \<in> set (conferenceKeysToAttend prof) \<and> r = Inr True
             \<and> s' = s\<lparr>profiles := (profiles s)(key \<mapsto>
                        prof\<lparr>conferenceKeysToAttend :=
                               remove1 wsck (conferenceKeysToAttend prof)\<rparr>),
                      conferences := (conferences s)(wsck \<mapsto>
                        conf\<lparr>seatsAvailable := seatsAvailable conf + 1\<rparr>)\<rparr>
           \<or> \<not> reg \<and> wsck \<notin> set (conferenceKeysToAttend prof) \<and> r = Inr False
             \<and> s' = s\<lparr>profiles := (profiles s)(key \<mapsto> prof)\<rparr>)"
      using assms Inr x s1 Some
      by (auto simp add: conference_registration_def transactional_def
          conference_registration_body_def put_profile_def put_conference_def Let_def
          map_upd_triv split: if_splits)
    with l Some show ?thesis by blast
  qed
qed





text \<open>What a profile call can do to the datastore.\<close>

lemma do_profile_cases:
  "snd (do_profile usr save_request s) = s
   \<or> (\<exists>uid prof p. loaded s uid prof
         \<and> conferenceKeysToAttend p = conferenceKeysToAttend prof
         \<and> snd (do_profile usr save_request s) = s\<lparr>profiles := (profiles s)(uid \<mapsto> p)\<rparr>)"
proof (cases "get_profile_from_user usr s")
  case (Inl e)
  then show ?thesis by (simp add: do_profile_def)
next
  case (Inr x)
  obtain key prof s1 where x: "x = ((key, prof), s1)" by (cases x) auto
  from get_profile_loaded[OF Inr[unfolded x]]
  have l: "loaded s key prof" and s1: "s1 = s\<lparr>profiles := (profiles s)(key \<mapsto> prof)\<rparr>"
    by simp_all
  let ?p = "the (profiles (snd (do_profile usr save_request s)) key)"
  have "conferenceKeysToAttend ?p = conferenceKeysToAttend prof
         \<and> snd (do_profile usr save_request s) = s\<lparr>profiles := (profiles s)(key \<mapsto> ?p)\<rparr>"
    using Inr x s1
    by (auto simp: do_profile_def put_profile_def Let_def split: option.splits)
  with l show ?thesis by blast
qed



text \<open>What a creation call can do to the datastore.\<close>

lemma create_conference_object_cases:
  "snd (create_conference_object usr request c_key s) = s
   \<or> (\<exists>conf.
        snd (create_conference_object usr request c_key s)
          = s\<lparr>conferences := (conferences s)(c_key \<mapsto> conf)\<rparr>
        \<and> maxAttendees conf =
            (case cf_maxAttendees request of None \<Rightarrow> DEFAULT_maxAttendees | Some m \<Rightarrow> m)
        \<and> seatsAvailable conf =
            (if 0 < maxAttendees conf then maxAttendees conf
             else (case cf_seatsAvailable request of
                     None \<Rightarrow> DEFAULT_seatsAvailable | Some n \<Rightarrow> n)))"
proof (cases usr)
  case None
  then show ?thesis by (simp add: create_conference_object_def)
next
  case (Some u)
  show ?thesis
  proof (cases "cf_name request = None \<or> cf_name request = Some []")
    case True
    with Some show ?thesis by (simp add: create_conference_object_def Let_def)
  next
    case named: False
    show ?thesis
    proof (cases "convert_date (cf_startDate request)")
      case (Inl e)
      with Some named show ?thesis by (simp add: create_conference_object_def Let_def)
    next
      case sd: (Inr data_startDate)
      show ?thesis
      proof (cases "convert_date (cf_endDate request)")
        case (Inl e)
        with Some named sd show ?thesis by (simp add: create_conference_object_def Let_def)
      next
        case ed: (Inr data_endDate)
        show ?thesis
        proof (cases "validate_date data_startDate")
          case (Inl e)
          with Some named sd ed show ?thesis
            by (simp add: create_conference_object_def Let_def)
        next
          case vs: (Inr vsd)
          show ?thesis
          proof (cases "validate_date data_endDate")
            case (Inl e)
            with Some named sd ed vs show ?thesis
              by (simp add: create_conference_object_def Let_def)
          next
            case ve: (Inr ved)
            let ?s' = "snd (create_conference_object usr request c_key s)"
            let ?conf = "the (conferences ?s' c_key)"
            from Some named sd ed vs ve
            have "?s' = s\<lparr>conferences := (conferences s)(c_key \<mapsto> ?conf)\<rparr>
                \<and> maxAttendees ?conf
                    = (case cf_maxAttendees request of
                         None \<Rightarrow> DEFAULT_maxAttendees | Some m \<Rightarrow> m)
                \<and> seatsAvailable ?conf =
                    (if 0 < maxAttendees ?conf then maxAttendees ?conf
                     else (case cf_seatsAvailable request of
                             None \<Rightarrow> DEFAULT_seatsAvailable | Some n \<Rightarrow> n))"
              by (cases "cf_name request")
                (simp_all add: create_conference_object_def Let_def put_conference_def)
            then show ?thesis by blast
          qed
        qed
      qed
    qed
  qed
qed





lemma conference_registration_wf:
  assumes wf: "well_formed s"
  shows "well_formed (snd (conference_registration usr wsck reg s))"
proof -
  obtain r s' where e: "conference_registration usr wsck reg s = (r, s')"
    by (cases "conference_registration usr wsck reg s")
  from conference_registration_cases[OF e]
  consider "s' = s"
    | uid prof conf where "loaded s uid prof" "conferences s wsck = Some conf"
        "wsck \<notin> set (conferenceKeysToAttend prof)"
        "s' = s\<lparr>profiles := (profiles s)(uid \<mapsto>
                        prof\<lparr>conferenceKeysToAttend := conferenceKeysToAttend prof @ [wsck]\<rparr>),
                      conferences := (conferences s)(wsck \<mapsto>
                        conf\<lparr>seatsAvailable := seatsAvailable conf - 1\<rparr>)\<rparr>"
    | uid prof conf where "loaded s uid prof" "conferences s wsck = Some conf"
        "s' = s\<lparr>profiles := (profiles s)(uid \<mapsto>
                        prof\<lparr>conferenceKeysToAttend :=
                               remove1 wsck (conferenceKeysToAttend prof)\<rparr>),
                      conferences := (conferences s)(wsck \<mapsto>
                        conf\<lparr>seatsAvailable := seatsAvailable conf + 1\<rparr>)\<rparr>"
    | uid prof where "loaded s uid prof"
        "s' = s\<lparr>profiles := (profiles s)(uid \<mapsto> prof)\<rparr>"
    by blast
  then have "well_formed s'"
  proof cases
    case 1
    with wf show ?thesis by simp
  next
    case 2
    from loaded_well_formed[OF 2(1) wf] 2(2,3) show ?thesis
      unfolding 2(4) by (intro well_formed_upd[OF wf]) auto
  next
    case 3
    from loaded_well_formed[OF 3(1) wf] 3(2) show ?thesis
      unfolding 3(3) by (intro well_formed_upd[OF wf]) (auto dest: notin_set_remove1)
  next
    case 4
    from same_keys_well_formed[OF 4(1) wf refl] show ?thesis
      unfolding 4(2) .
  qed
  with e show ?thesis by simp
qed

lemma do_profile_wf:
  "well_formed s \<Longrightarrow> well_formed (snd (do_profile usr save_request s))"
  using do_profile_cases[of usr save_request s]
  by (auto dest: same_keys_well_formed)

lemma create_conference_object_wf:
  assumes "well_formed s"
  shows "well_formed (snd (create_conference_object usr request c_key s))"
  using create_conference_object_cases[of usr request c_key s] assms
  by (auto simp: well_formed_def) blast+

lemma reachable_well_formed: "reachable ok s \<Longrightarrow> well_formed s"
proof (induction rule: reachable.induct)
  case init
  show ?case by (simp add: well_formed_def empty_datastore_def)
next
  case (create s request c_key usr)
  then show ?case by (simp add: create_conference_object_wf)
next
  case (register s usr wsck)
  then show ?case by (simp add: register_for_conference_def conference_registration_wf)
next
  case (unregister s usr wsck)
  then show ?case by (simp add: unregister_from_conference_def conference_registration_wf)
next
  case (profile s usr save_request)
  then show ?case by (simp add: do_profile_wf)
qed

subsection \<open>The example datastores, evaluated\<close>

lemma create_pycon:
  "create_conference_object (Some bob) pycon_request ''key1'' empty_datastore =
     (Inr (pycon_request\<lparr>cf_city := Some ''Default City'', cf_maxAttendees := Some 2,
             cf_seatsAvailable := Some 2, cf_topics := [''Default'', ''Topic''],
             cf_organizerUserId := Some ''bob''\<rparr>),
      \<lparr>profiles = Map.empty,
       conferences = [''key1'' \<mapsto>
         \<lparr>name = ''PyCon'', description = None, organizerUserId = ''bob'',
          topics = [''Default'', ''Topic''], city = ''Default City'',
          startDate = Some \<lparr>d_year = 2015, d_month = 6, d_day = 1\<rparr>, month = 6,
          maxAttendees = 2, seatsAvailable = 2, endDate = None\<rparr>]\<rparr>)"
  by (simp add: create_conference_object_def pycon_request_def empty_datastore_def bob_def
      get_user_id_def convert_date_def validate_date_def put_conference_def Let_def
      DEFAULT_city_def DEFAULT_maxAttendees_def DEFAULT_seatsAvailable_def DEFAULT_topics_def
      date_defs)


lemma ds_created_eq:
  "ds_created =
     \<lparr>profiles = Map.empty,
      conferences = [''key1'' \<mapsto>
         \<lparr>name = ''PyCon'', description = None, organizerUserId = ''bob'',
          topics = [''Default'', ''Topic''], city = ''Default City'',
          startDate = Some \<lparr>d_year = 2015, d_month = 6, d_day = 1\<rparr>, month = 6,
          maxAttendees = 2, seatsAvailable = 2, endDate = None\<rparr>]\<rparr>"
  by (simp add: ds_created_def create_pycon)

lemma ds_one_eq:
  "ds_one =
     \<lparr>profiles = [''alice'' \<mapsto> alice_profile\<lparr>conferenceKeysToAttend := [''key1'']\<rparr>],
      conferences = [''key1'' \<mapsto>
         \<lparr>name = ''PyCon'', description = None, organizerUserId = ''bob'',
          topics = [''Default'', ''Topic''], city = ''Default City'',
          startDate = Some \<lparr>d_year = 2015, d_month = 6, d_day = 1\<rparr>, month = 6,
          maxAttendees = 2, seatsAvailable = 1, endDate = None\<rparr>]\<rparr>"
  by (simp add: ds_one_def ds_created_eq register_for_conference_def
      conference_registration_def transactional_def conference_registration_body_def
      get_profile_from_user_def put_profile_def put_conference_def Let_def
      alice_def alice_profile_def get_user_id_def)

text \<open>
  C4. Registration, rejections. For an authenticated caller with Profile
  \<open>prof\<close> (loaded or created): registerForConference fails with
  AlreadyRegistered when \<open>prof\<close> lists the key, in every datastore the
  service can reach (there the listed conference exists) and in any other
  datastore that has the conference; it fails with NoSeatsAvailable when
  \<open>prof\<close> does not list the key and the conference has no seat left. In
  both cases the datastore after the call is the datastore before it:
  neither record is changed, and a Profile created on the way is dropped
  with the transaction.
\<close>

theorem register_rejected:
  assumes "get_profile_from_user (Some u) s = Inr ((key, prof), s1)"
  shows "(wsck \<in> set (conferenceKeysToAttend prof)
            \<and> (reachable any_request s \<or> conferences s wsck \<noteq> None) \<longrightarrow>
            register_for_conference (Some u) wsck s = (Inl AlreadyRegistered, s))
       \<and> (wsck \<notin> set (conferenceKeysToAttend prof)
            \<and> (case conferences s wsck of
                  None \<Rightarrow> False | Some conf \<Rightarrow> seatsAvailable conf \<le> 0) \<longrightarrow>
            register_for_conference (Some u) wsck s = (Inl NoSeatsAvailable, s))"
proof (intro conjI impI)
  assume a: "wsck \<in> set (conferenceKeysToAttend prof)
        \<and> (reachable any_request s \<or> conferences s wsck \<noteq> None)"
  from get_profile_loaded[OF assms] have l: "loaded s key prof"
    and s1: "s1 = s\<lparr>profiles := (profiles s)(key \<mapsto> prof)\<rparr>" by simp_all
  have "conferences s wsck \<noteq> None"
  proof (cases "reachable any_request s")
    case True
    from loaded_well_formed[OF l reachable_well_formed[OF True]] a show ?thesis by auto
  next
    case False
    with a show ?thesis by simp
  qed
  then obtain conf where "conferences s wsck = Some conf" by auto
  with assms a s1 show "register_for_conference (Some u) wsck s = (Inl AlreadyRegistered, s)"
    by (simp add: register_for_conference_def conference_registration_def transactional_def
        conference_registration_body_def)
next
  assume a: "wsck \<notin> set (conferenceKeysToAttend prof)
        \<and> (case conferences s wsck of None \<Rightarrow> False | Some conf \<Rightarrow> seatsAvailable conf \<le> 0)"
  from get_profile_loaded[OF assms]
  have s1: "s1 = s\<lparr>profiles := (profiles s)(key \<mapsto> prof)\<rparr>" by simp
  from a obtain conf where "conferences s wsck = Some conf" "seatsAvailable conf \<le> 0"
    by (auto split: option.splits)
  with assms a s1 show "register_for_conference (Some u) wsck s = (Inl NoSeatsAvailable, s)"
    by (simp add: register_for_conference_def conference_registration_def transactional_def
        conference_registration_body_def)
qed

theorem register_rejected_witness:
  "reachable any_request ds_one
   \<and> ''key1'' \<in> set (conferenceKeysToAttend (alice_profile\<lparr>conferenceKeysToAttend := [''key1'']\<rparr>))
   \<and> register_for_conference (Some alice) ''key1'' ds_one = (Inl AlreadyRegistered, ds_one)
   \<and> ''key1'' \<notin> set (conferenceKeysToAttend bob_profile)
   \<and> conferences ds_full ''key1'' = Some (pycon\<lparr>seatsAvailable := 0\<rparr>)
   \<and> register_for_conference (Some bob) ''key1'' ds_full = (Inl NoSeatsAvailable, ds_full)"
proof -
  have fresh: "''key1'' \<notin> dom (conferences empty_datastore)"
    by (simp add: empty_datastore_def)
  have any: "any_request pycon_request" by (simp add: any_request_def)
  have r0: "reachable any_request ds_created"
    unfolding ds_created_def
    by (rule reachable.create[where ok = any_request, OF reachable.init any fresh])
  have r1: "reachable any_request ds_one"
    unfolding ds_one_def by (rule reachable.register[OF r0])
  have a1: "get_profile_from_user (Some alice) ds_one =
              Inr ((''alice'', alice_profile\<lparr>conferenceKeysToAttend := [''key1'']\<rparr>), ds_one)"
    by (simp add: ds_one_eq get_profile_from_user_def put_profile_def Let_def ex_defs)
  have a3: "''key1'' \<in> set (conferenceKeysToAttend
              (alice_profile\<lparr>conferenceKeysToAttend := [''key1'']\<rparr>))"
    by simp
  have b1: "get_profile_from_user (Some bob) ds_full = Inr ((''bob'', bob_profile), ds_full)"
    by (simp add: get_profile_from_user_def put_profile_def Let_def ex_defs)
  have b2: "conferences ds_full ''key1'' = Some (pycon\<lparr>seatsAvailable := 0\<rparr>)"
    by (simp add: ex_defs)
  have b3: "''key1'' \<notin> set (conferenceKeysToAttend bob_profile)"
    by (simp add: ex_defs)
  have a: "register_for_conference (Some alice) ''key1'' ds_one = (Inl AlreadyRegistered, ds_one)"
    using register_rejected[OF a1, of "''key1''"] a3 r1 by blast
  have b: "register_for_conference (Some bob) ''key1'' ds_full = (Inl NoSeatsAvailable, ds_full)"
    using register_rejected[OF b1, of "''key1''"] b2 b3 by simp
  show ?thesis using r1 a3 a b3 b2 b by blast
qed

subsection \<open>The seat invariant\<close>




subsection \<open>Updating a conference\<close>

text \<open>
  C6. Update authorization. The source checks the caller against
  \<open>organizerUserId\<close> and raises the NotOwner failure, but only after it has
  called \<^verbatim>\<open>_getUserId\<close>, a name that is not bound. So for every
  authenticated caller, owner or not, updateConference ends in that
  \<^verbatim>\<open>NameError\<close> and never reaches the check; the datastore is unchanged.
\<close>

theorem update_raises_NameError:
  "update_conference_object (Some u) request wsck s = (Inl (NameError ''_getUserId''), s)"
  by (simp add: update_conference_object_def transactional_def
      update_conference_object_body_def getUserId_call_def)

theorem update_raises_NameError_witness:
  "organizerUserId (pycon\<lparr>seatsAvailable := 0\<rparr>) \<noteq> get_user_id alice
   \<and> update_conference_object (Some alice)
       \<lparr>cf_name = Some ''EuroPython'', cf_description = None,
        cf_organizerUserId = None, cf_topics = [], cf_city = None, cf_startDate = None,
        cf_month = None, cf_maxAttendees = None, cf_seatsAvailable = None, cf_endDate = None,
        cf_websafeKey = None, cf_organizerDisplayName = None\<rparr> ''key1'' ds_full
      = (Inl (NameError ''_getUserId''), ds_full)"
  using update_raises_NameError[of alice _ "''key1''" ds_full] by (simp add: ex_defs)

subsection \<open>Saving a profile\<close>

text \<open>
  C10. Frame of saveProfile. For an authenticated caller with Profile \<open>prof\<close>
  (loaded or created), the datastore after a save differs from the one
  before at most in the caller's Profile; in that Profile \<open>userId\<close>,
  \<open>mainEmail\<close> and \<open>conferenceKeysToAttend\<close> are those of \<open>prof\<close>;
  \<open>displayName\<close> is kept when the request's is absent or empty, and
  \<open>teeShirtSize\<close> is kept when the request's is absent. Without a caller the
  save fails and changes nothing.
\<close>

theorem save_profile_frame:
  assumes "get_profile_from_user (Some u) s = Inr ((key, prof), s1)"
  shows "(let s' = snd (do_profile (Some u) (Some req) s);
              prof' = the (profiles s' (get_user_id u))
          in s' = s\<lparr>profiles := (profiles s)(get_user_id u \<mapsto> prof')\<rparr>
             \<and> userId prof' = userId prof
             \<and> mainEmail prof' = mainEmail prof
             \<and> conferenceKeysToAttend prof' = conferenceKeysToAttend prof
             \<and> (pm_displayName req = None \<or> pm_displayName req = Some [] \<longrightarrow>
                   displayName prof' = displayName prof)
             \<and> (pm_teeShirtSize req = None \<longrightarrow> teeShirtSize prof' = teeShirtSize prof))
         \<and> do_profile None (Some req) s = (Inl Unauthenticated, s)"
  using get_profile_from_user_Some[OF assms] assms
  by (auto simp: do_profile_def Let_def put_profile_def get_profile_from_user_def
      split: option.splits)

theorem save_profile_frame_witness:
  "snd (do_profile (Some alice) (Some \<lparr>pm_displayName = Some [], pm_teeShirtSize = Some XL_W\<rparr>)
          ds_attending)
     = ds_attending\<lparr>profiles := (profiles ds_attending)(''alice'' \<mapsto>
         the (profiles (snd (do_profile (Some alice)
                (Some \<lparr>pm_displayName = Some [], pm_teeShirtSize = Some XL_W\<rparr>) ds_attending))
              ''alice''))\<rparr>
   \<and> displayName (the (profiles (snd (do_profile (Some alice)
                (Some \<lparr>pm_displayName = Some [], pm_teeShirtSize = Some XL_W\<rparr>) ds_attending))
              ''alice'')) = ''Alice''
   \<and> conferenceKeysToAttend (the (profiles (snd (do_profile (Some alice)
                (Some \<lparr>pm_displayName = Some [], pm_teeShirtSize = Some XL_W\<rparr>) ds_attending))
              ''alice'')) = [''key1'']
   \<and> teeShirtSize (the (profiles (snd (do_profile (Some bob)
                (Some \<lparr>pm_displayName = Some ''Robert'', pm_teeShirtSize = None\<rparr>) ds_full))
              ''bob'')) = ''NOT_SPECIFIED''"
proof -
  have a1: "get_profile_from_user (Some alice) ds_attending =
              Inr ((''alice'', alice_profile\<lparr>conferenceKeysToAttend := [''key1'']\<rparr>),
                   ds_attending)"
    by (simp add: get_profile_from_user_def put_profile_def Let_def ex_defs)
  have b1: "get_profile_from_user (Some bob) ds_full = Inr ((''bob'', bob_profile), ds_full)"
    by (simp add: get_profile_from_user_def put_profile_def Let_def ex_defs)
  have ga: "get_user_id alice = ''alice''" and gb: "get_user_id bob = ''bob''"
    by (simp_all add: ex_defs)
  have pa: "displayName (alice_profile\<lparr>conferenceKeysToAttend := [''key1'']\<rparr>) = ''Alice''"
    and pb: "teeShirtSize bob_profile = ''NOT_SPECIFIED''"
    by (simp_all add: ex_defs)
  show ?thesis
    using save_profile_frame[OF a1, of "\<lparr>pm_displayName = Some [], pm_teeShirtSize = Some XL_W\<rparr>"]
      save_profile_frame[OF b1, of "\<lparr>pm_displayName = Some ''Robert'', pm_teeShirtSize = None\<rparr>"]
    by (simp add: Let_def ga gb pa pb)
qed

subsection \<open>The filter compiler\<close>

lemma whitelisted_field:
  "whitelisted f \<Longrightarrow> \<exists>fld. map_of FIELDS (field f) = Some fld \<and> fld \<noteq> []"
  by (auto simp: whitelisted_def FIELDS_def)

lemma whitelisted_operator:
  "whitelisted f \<Longrightarrow>
     \<exists>opr. map_of OPERATORS (operator f) = Some opr \<and> (opr \<noteq> ''='') = is_inequality f"
  by (auto simp: whitelisted_def OPERATORS_def is_inequality_def)

lemma FIELDS_inj:
  "whitelisted f \<Longrightarrow> whitelisted g \<Longrightarrow>
     (the (map_of FIELDS (field f)) = the (map_of FIELDS (field g))) = (field f = field g)"
  by (auto simp: whitelisted_def FIELDS_def)

lemma loop_step:
  assumes "whitelisted f"
  shows "format_filters_loop (f # fs) ineq acc =
     (if is_inequality f then
        (if ineq \<noteq> None \<and> ineq \<noteq> Some [] \<and> ineq \<noteq> Some (field (format_clause f))
         then Inl MultipleInequalityFields
         else format_filters_loop fs (Some (field (format_clause f))) (acc @ [format_clause f]))
      else format_filters_loop fs ineq (acc @ [format_clause f]))"
  using whitelisted_field[OF assms] whitelisted_operator[OF assms]
  by (auto simp: format_clause_def Let_def)

lemma loop_fixed:
  assumes "\<forall>f \<in> set fs. whitelisted f" and "g \<noteq> []"
  shows "format_filters_loop fs (Some g) acc =
     (if \<forall>f \<in> set fs. is_inequality f \<longrightarrow> field (format_clause f) = g
      then Inr (Some g, acc @ map format_clause fs)
      else Inl MultipleInequalityFields)"
  using assms
proof (induction fs arbitrary: acc)
  case Nil
  then show ?case by simp
next
  case (Cons f fs)
  then have w: "whitelisted f" and ws: "\<forall>f \<in> set fs. whitelisted f" by simp_all
  note IH = Cons.IH[OF ws Cons.prems(2)]
  show ?case
  proof (cases "is_inequality f")
    case False
    then show ?thesis
      by (simp add: loop_step[OF w] IH del: format_filters_loop.simps)
  next
    case True
    show ?thesis
    proof (cases "field (format_clause f) = g")
      case same: True
      have e: "format_filters_loop (f # fs) (Some g) acc =
              format_filters_loop fs (Some g) (acc @ [format_clause f])"
        using True same by (simp add: loop_step[OF w] del: format_filters_loop.simps)
      show ?thesis
        using True same by (simp add: e IH del: format_filters_loop.simps)
    next
      case other: False
      have e: "format_filters_loop (f # fs) (Some g) acc = Inl MultipleInequalityFields"
        using True other Cons.prems(2)
        by (auto simp add: loop_step[OF w] simp del: format_filters_loop.simps)
      show ?thesis
        using True other by (simp add: e del: format_filters_loop.simps)
    qed
  qed
qed

lemma loop_open:
  assumes "\<forall>f \<in> set fs. whitelisted f"
  shows "format_filters_loop fs None acc =
     (case find is_inequality fs of
        None \<Rightarrow> Inr (None, acc @ map format_clause fs)
      | Some f0 \<Rightarrow>
          if \<forall>f \<in> set fs. is_inequality f \<longrightarrow> field (format_clause f) = field (format_clause f0)
          then Inr (Some (field (format_clause f0)), acc @ map format_clause fs)
          else Inl MultipleInequalityFields)"
  using assms
proof (induction fs arbitrary: acc)
  case Nil
  then show ?case by simp
next
  case (Cons f fs)
  then have w: "whitelisted f" and ws: "\<forall>f \<in> set fs. whitelisted f" by simp_all
  from whitelisted_field[OF w] have ne: "field (format_clause f) \<noteq> []"
    by (auto simp: format_clause_def)
  show ?case
  proof (cases "is_inequality f")
    case True
    have e: "format_filters_loop (f # fs) None acc =
            format_filters_loop fs (Some (field (format_clause f))) (acc @ [format_clause f])"
      using True by (simp add: loop_step[OF w] del: format_filters_loop.simps)
    show ?thesis
      using True by (simp add: e loop_fixed[OF ws ne] del: format_filters_loop.simps)
  next
    case False
    have e: "format_filters_loop (f # fs) None acc =
            format_filters_loop fs None (acc @ [format_clause f])"
      using False by (simp add: loop_step[OF w] del: format_filters_loop.simps)
    show ?thesis
      using False
      by (auto simp add: e Cons.IH[OF ws] simp del: format_filters_loop.simps split: option.split)
  qed
qed

lemma conflict_iff:
  assumes "\<forall>f \<in> set fs. whitelisted f" and "find is_inequality fs = Some f0"
  shows "inequality_conflict fs =
     (\<not> (\<forall>f \<in> set fs. is_inequality f \<longrightarrow> field (format_clause f) = field (format_clause f0)))"
proof -
  from assms(2) have f0: "f0 \<in> set fs" "is_inequality f0"
    by (auto simp: find_Some_iff)
  have eq: "\<And>f. f \<in> set fs \<Longrightarrow>
      (field (format_clause f) = field (format_clause f0)) = (field f = field f0)"
    using assms(1) f0(1) FIELDS_inj by (simp add: format_clause_def)
  show ?thesis
    unfolding inequality_conflict_def using f0 eq by metis
qed

text \<open>
  C2. The inequality-field rule. On clauses that all pass the whitelists,
  the compiler fails with MultipleInequalityFields exactly when two clauses
  use inequality operators on two distinct fields. Otherwise it succeeds, and
  returns the translated clauses in their order together with the property
  of the first inequality clause in input order, or none when every clause
  is an equality. So equality clauses never bring the failure about, and
  inequalities that share one field are accepted.
\<close>

theorem inequality_field_rule:
  assumes "\<forall>f \<in> set fs. whitelisted f"
  shows "format_filters fs =
     (if inequality_conflict fs then Inl MultipleInequalityFields
      else Inr (map_option (\<lambda>f. field (format_clause f)) (find is_inequality fs),
                map format_clause fs))"
proof (cases "find is_inequality fs")
  case None
  then have "\<not> inequality_conflict fs"
    by (auto simp: inequality_conflict_def find_None_iff)
  with None show ?thesis
    using loop_open[OF assms, of "[]"] by (simp add: format_filters_def)
next
  case (Some f0)
  show ?thesis
    using loop_open[OF assms, of "[]"] conflict_iff[OF assms Some] Some
    by (simp add: format_filters_def)
qed


theorem inequality_field_rule_witness:
  "inequality_conflict [london_filter, big_filter, summer_filter]
   \<and> format_filters [london_filter, big_filter, summer_filter] = Inl MultipleInequalityFields
   \<and> format_filters [big_filter, london_filter, huge_filter] =
       Inr (Some ''maxAttendees'',
            [big_filter\<lparr>field := ''maxAttendees'', operator := ''>''\<rparr>,
             london_filter\<lparr>field := ''city'', operator := ''=''\<rparr>,
             huge_filter\<lparr>field := ''maxAttendees'', operator := ''<=''\<rparr>])"
proof -
  have w1: "\<forall>f \<in> set [london_filter, big_filter, summer_filter]. whitelisted f"
    by (simp add: whitelisted_def FIELDS_def OPERATORS_def filter_ex_defs)
  have w2: "\<forall>f \<in> set [big_filter, london_filter, huge_filter]. whitelisted f"
    by (simp add: whitelisted_def FIELDS_def OPERATORS_def filter_ex_defs)
  have c1: "inequality_conflict [london_filter, big_filter, summer_filter]"
    by (simp add: inequality_conflict_def is_inequality_def filter_ex_defs)
  have c2: "\<not> inequality_conflict [big_filter, london_filter, huge_filter]"
    by (simp add: inequality_conflict_def is_inequality_def filter_ex_defs)
  show ?thesis
    using inequality_field_rule[OF w1] inequality_field_rule[OF w2] c1 c2
    by (simp add: is_inequality_def format_clause_def FIELDS_def OPERATORS_def filter_ex_defs)
qed

subsection \<open>The conference query\<close>

lemma apply_filters_eq:
  "apply_filters q fs =
     (if \<exists>f \<in> set fs. uncoercible f then Inl InvalidFilterValue
      else Inr (q\<lparr>filters := filters q @ map filter_node fs\<rparr>))"
proof (induction fs arbitrary: q)
  case Nil
  then show ?case by simp
next
  case (Cons f fs)
  show ?case
  proof (cases "field f \<in> set [''month'', ''maxAttendees'']")
    case num: True
    show ?thesis
    proof (cases "py_int (value f)")
      case None
      with num show ?thesis by (simp add: uncoercible_def)
    next
      case (Some n)
      with num show ?thesis
        by (simp add: Cons.IH uncoercible_def filter_node_def filter_query_def)
    qed
  next
    case False
    then show ?thesis
      by (simp add: Cons.IH uncoercible_def filter_node_def filter_query_def)
  qed
qed

lemma loop_Inr:
  "format_filters_loop fs ineq acc = Inr (i, ffs) \<Longrightarrow>
     (\<forall>f \<in> set fs. whitelisted f) \<and> ffs = acc @ map format_clause fs
     \<and> (ineq \<noteq> Some [] \<longrightarrow> i \<noteq> Some [])"
proof (induction fs arbitrary: ineq acc)
  case Nil
  then show ?case by auto
next
  case (Cons f fs)
  from Cons.prems obtain fld opr where
    fo: "map_of FIELDS (field f) = Some fld" "map_of OPERATORS (operator f) = Some opr"
    by (auto split: option.splits)
  then have w: "whitelisted f"
    by (auto simp: whitelisted_def dest: map_of_SomeD intro: rev_image_eqI)
  from whitelisted_field[OF w] have ne: "field (format_clause f) \<noteq> []"
    by (auto simp: format_clause_def)
  from Cons.prems obtain ineq' where
    "format_filters_loop fs ineq' (acc @ [format_clause f]) = Inr (i, ffs)"
    and "ineq' = ineq \<or> ineq' = Some (field (format_clause f))"
    by (auto simp add: loop_step[OF w] simp del: format_filters_loop.simps split: if_splits)
  with Cons.IH[of ineq' "acc @ [format_clause f]"] w ne show ?case
    by auto
qed

lemma format_filters_Inr:
  assumes "format_filters fs = Inr (ineq, ffs)"
  shows "(\<forall>f \<in> set fs. whitelisted f) \<and> ffs = map format_clause fs \<and> ineq \<noteq> Some []"
  using loop_Inr[of fs None "[]" ineq ffs] assms by (simp add: format_filters_def)

text \<open>
  C7. Sort order. A filter set is accepted when the filter compiler accepts
  it and \<^verbatim>\<open>int\<close> accepts the value of every clause on a numeric property.
  For every accepted filter set the query is built, and it sorts by the
  inequality field the compiler identified and then by \<open>name\<close>, or by \<open>name\<close>
  alone when the compiler identified none. For every other filter set no
  query is built: the call fails with the compiler's error, or with the
  \<^verbatim>\<open>ValueError\<close> of \<^verbatim>\<open>int\<close>.
\<close>

theorem query_sort_order:
  "get_query fs =
     (case format_filters fs of
        Inl e \<Rightarrow> Inl e
      | Inr (ineq, ffs) \<Rightarrow>
          if \<exists>f \<in> set ffs. uncoercible f then Inl InvalidFilterValue
          else Inr \<lparr>orders = (case ineq of None \<Rightarrow> [''name''] | Some fld \<Rightarrow> [fld, ''name'']),
                    filters = map filter_node ffs\<rparr>)"
proof (cases "format_filters fs")
  case (Inl e)
  then show ?thesis by (simp add: get_query_def)
next
  case (Inr r)
  obtain ineq ffs where r: "r = (ineq, ffs)" by (cases r)
  from format_filters_Inr[OF Inr[unfolded r]] have ne: "ineq \<noteq> Some []" by simp
  show ?thesis
  proof (cases ineq)
    case None
    with Inr r show ?thesis
      by (simp add: get_query_def Let_def apply_filters_eq order_def Conference_query_def)
  next
    case (Some fld)
    with ne have "fld \<noteq> []" by simp
    with Inr r Some show ?thesis
      by (simp add: get_query_def Let_def apply_filters_eq order_def Conference_query_def)
  qed
qed

theorem query_sort_order_witness:
  "get_query [london_filter, big_filter] =
     Inr \<lparr>orders = [''maxAttendees'', ''name''],
          filters = [\<lparr>fn_field = ''city'', fn_operator = ''='', fn_value = StrVal ''London''\<rparr>,
                     \<lparr>fn_field = ''maxAttendees'', fn_operator = ''>'', fn_value = IntVal 10\<rparr>]\<rparr>
   \<and> get_query [london_filter] =
     Inr \<lparr>orders = [''name''],
          filters = [\<lparr>fn_field = ''city'', fn_operator = ''='', fn_value = StrVal ''London''\<rparr>]\<rparr>
   \<and> get_query [london_filter, big_filter, summer_filter] = Inl MultipleInequalityFields"
proof -
  have f1: "format_filters [london_filter, big_filter] =
       Inr (Some ''maxAttendees'',
            [london_filter\<lparr>field := ''city'', operator := ''=''\<rparr>,
             big_filter\<lparr>field := ''maxAttendees'', operator := ''>''\<rparr>])"
    by (simp add: format_filters_def FIELDS_def OPERATORS_def filter_ex_defs)
  have f2: "format_filters [london_filter] =
       Inr (None, [london_filter\<lparr>field := ''city'', operator := ''=''\<rparr>])"
    by (simp add: format_filters_def FIELDS_def OPERATORS_def filter_ex_defs)
  have f3: "format_filters [london_filter, big_filter, summer_filter]
              = Inl MultipleInequalityFields"
    by (simp add: format_filters_def FIELDS_def OPERATORS_def filter_ex_defs)
  have u1: "\<not> uncoercible (london_filter\<lparr>field := ''city'', operator := ''=''\<rparr>)"
    and u2: "\<not> uncoercible (big_filter\<lparr>field := ''maxAttendees'', operator := ''>''\<rparr>)"
    by (simp_all add: uncoercible_def py_int_def is_space_def is_digit_def filter_ex_defs)
  have n1: "filter_node (london_filter\<lparr>field := ''city'', operator := ''=''\<rparr>)
              = \<lparr>fn_field = ''city'', fn_operator = ''='', fn_value = StrVal ''London''\<rparr>"
    and n2: "filter_node (big_filter\<lparr>field := ''maxAttendees'', operator := ''>''\<rparr>)
              = \<lparr>fn_field = ''maxAttendees'', fn_operator = ''>'', fn_value = IntVal 10\<rparr>"
    by (simp_all add: filter_node_def py_int_def is_space_def is_digit_def digits_val_def
        digit_val_def filter_ex_defs)
  have a: "get_query [london_filter, big_filter] =
     Inr \<lparr>orders = [''maxAttendees'', ''name''],
          filters = [\<lparr>fn_field = ''city'', fn_operator = ''='', fn_value = StrVal ''London''\<rparr>,
                     \<lparr>fn_field = ''maxAttendees'', fn_operator = ''>'', fn_value = IntVal 10\<rparr>]\<rparr>"
    using query_sort_order[of "[london_filter, big_filter]"] u1 u2
    by (simp add: f1 n1 n2)
  have b: "get_query [london_filter] =
     Inr \<lparr>orders = [''name''],
          filters = [\<lparr>fn_field = ''city'', fn_operator = ''='', fn_value = StrVal ''London''\<rparr>]\<rparr>"
    using query_sort_order[of "[london_filter]"] u1
    by (simp add: f2 n1)
  have c: "get_query [london_filter, big_filter, summer_filter] = Inl MultipleInequalityFields"
    using query_sort_order[of "[london_filter, big_filter, summer_filter]"]
    by (simp add: f3)
  show ?thesis using a b c by simp
qed

text \<open>
  C8. Numeric coercion. Once the filter compiler has accepted the clauses,
  a clause on \<open>month\<close> or \<open>maxAttendees\<close> whose value \<^verbatim>\<open>int\<close> refuses makes the
  query fail with InvalidFilterValue (the \<^verbatim>\<open>ValueError\<close> of \<^verbatim>\<open>int\<close>, which
  the module lets through); when there is no such clause the query is built
  and every clause on a numeric property carries the integer \<^verbatim>\<open>int\<close> made of
  its string, every other clause its string.
\<close>

theorem numeric_filter_coercion:
  assumes "format_filters fs = Inr (ineq, ffs)"
  shows "(if \<exists>f \<in> set ffs. uncoercible f
          then get_query fs = Inl InvalidFilterValue
          else (case get_query fs of
                  Inl e \<Rightarrow> False
                | Inr q \<Rightarrow> filters q = map filter_node ffs))
         \<and> ffs = map format_clause fs"
  using assms format_filters_Inr[OF assms]
  by (simp add: get_query_def Let_def apply_filters_eq order_def Conference_query_def)

theorem numeric_filter_coercion_witness:
  "get_query [london_filter, june_filter] = Inl InvalidFilterValue
   \<and> filters (case get_query [summer_filter] of Inr q \<Rightarrow> q)
       = [\<lparr>fn_field = ''month'', fn_operator = ''>='', fn_value = IntVal 6\<rparr>]"
proof -
  have f1: "format_filters [london_filter, june_filter] =
       Inr (None,
            [london_filter\<lparr>field := ''city'', operator := ''=''\<rparr>,
             june_filter\<lparr>field := ''month'', operator := ''=''\<rparr>])"
    by (simp add: format_filters_def FIELDS_def OPERATORS_def filter_ex_defs)
  have f2: "format_filters [summer_filter] =
       Inr (Some ''month'', [summer_filter\<lparr>field := ''month'', operator := ''>=''\<rparr>])"
    by (simp add: format_filters_def FIELDS_def OPERATORS_def filter_ex_defs)
  have u1: "uncoercible (june_filter\<lparr>field := ''month'', operator := ''=''\<rparr>)"
    by (simp add: uncoercible_def py_int_def is_space_def is_digit_def filter_ex_defs)
  have u2: "\<not> uncoercible (summer_filter\<lparr>field := ''month'', operator := ''>=''\<rparr>)"
    by (simp add: uncoercible_def py_int_def is_space_def is_digit_def filter_ex_defs)
  have n2: "filter_node (summer_filter\<lparr>field := ''month'', operator := ''>=''\<rparr>)
              = \<lparr>fn_field = ''month'', fn_operator = ''>='', fn_value = IntVal 6\<rparr>"
    by (simp add: filter_node_def py_int_def is_space_def is_digit_def digits_val_def
        digit_val_def filter_ex_defs)
  have a: "get_query [london_filter, june_filter] = Inl InvalidFilterValue"
    using numeric_filter_coercion[OF f1] u1 by simp
  have b: "filters (case get_query [summer_filter] of Inr q \<Rightarrow> q)
       = [\<lparr>fn_field = ''month'', fn_operator = ''>='', fn_value = IntVal 6\<rparr>]"
    using numeric_filter_coercion[OF f2] u2 n2 by (simp split: sum.splits)
  show ?thesis using a b by simp
qed

text \<open>
  Without the compiler's acceptance the failure can be another one: the
  compiler runs over all clauses before any value is coerced, so a clause
  with an uncoercible value followed by a clause on a field outside the
  whitelist fails with the compiler's error.
\<close>

theorem numeric_filter_coercion_counterexample:
  "field (format_clause june_filter) = ''month''
   \<and> py_int (value june_filter) = None
   \<and> get_query [june_filter, name_filter] = Inl InvalidFilterFieldOrOperator"
  by (simp add: june_filter_def name_filter_def format_clause_def FIELDS_def OPERATORS_def
      py_int_def is_space_def is_digit_def get_query_def format_filters_def)

subsection \<open>The dates of a new conference\<close>

lemma strptime_date_error: "strptime_date str = Inl e \<Longrightarrow> e = ValueError"
  by (auto simp: strptime_date_def make_date_def Let_def
      split: list.splits option.splits if_splits prod.splits)

lemma convert_date_eq:
  "convert_date d =
     (if date_refused d then Inl ValueError
      else Inr (case d of
                  None \<Rightarrow> None
                | Some str \<Rightarrow> if str = [] then Some (Inl str)
                              else Some (Inr (the (date_read d)))))"
  by (auto simp: convert_date_def date_refused_def date_read_def
      dest: strptime_date_error split: option.splits sum.splits)

text \<open>
  C9. Dates at creation, as the code reads them. For an authenticated caller
  and a request with a name: createConference reads \<open>startDate\<close> and
  \<open>endDate\<close> from the first ten characters of the strings, in the format
  \<^verbatim>\<open>%Y-%m-%d\<close>, whatever follows them. It fails with InvalidDate (the
  \<^verbatim>\<open>ValueError\<close> of \<^verbatim>\<open>strptime\<close>) exactly when one of the two strings is
  not empty and its first ten characters do not parse, and then writes
  nothing. When neither is refused (nor empty), the Conference is written
  with the dates read, and \<open>month\<close> is the month of the start date, or 0
  when the request has no start date.
\<close>

theorem create_conference_dates:
  assumes "cf_name request = Some n" and "n \<noteq> []"
  shows "(fst (create_conference_object (Some u) request c_key s) = Inl InvalidDate)
           = (date_refused (cf_startDate request) \<or> date_refused (cf_endDate request))
       \<and> (date_refused (cf_startDate request) \<or> date_refused (cf_endDate request) \<longrightarrow>
            snd (create_conference_object (Some u) request c_key s) = s)
       \<and> (\<not> date_refused (cf_startDate request) \<and> \<not> date_refused (cf_endDate request)
            \<and> cf_startDate request \<noteq> Some [] \<and> cf_endDate request \<noteq> Some [] \<longrightarrow>
            (case conferences (snd (create_conference_object (Some u) request c_key s)) c_key of
               None \<Rightarrow> False
             | Some conf \<Rightarrow>
                 startDate conf = date_read (cf_startDate request)
                 \<and> endDate conf = date_read (cf_endDate request)
                 \<and> month conf = (case date_read (cf_startDate request) of
                                   None \<Rightarrow> 0 | Some dt \<Rightarrow> int (d_month dt))))"
proof -
  show ?thesis
    using assms
    by (auto simp: create_conference_object_def Let_def convert_date_eq validate_date_def
        put_conference_def date_read_def date_refused_def
        split: option.splits sum.splits)
qed

theorem create_conference_dates_witness:
  "date_read (cf_startDate pycon_request) = Some \<lparr>d_year = 2015, d_month = 6, d_day = 1\<rparr>
   \<and> month (the (conferences ds_created ''key1'')) = 6
   \<and> date_refused (cf_startDate undated_request)
   \<and> create_conference_object (Some bob) undated_request ''key2'' ds_created
       = (Inl InvalidDate, ds_created)"
proof -
  have n: "cf_name pycon_request = Some ''PyCon''" "''PyCon'' \<noteq> []"
    and n': "cf_name undated_request = Some ''PyCon''"
    by (simp_all add: pycon_request_def undated_request_def)
  have a1: "\<not> date_refused (cf_startDate pycon_request)"
    and a2: "\<not> date_refused (cf_endDate pycon_request)"
    and a3: "cf_startDate pycon_request \<noteq> Some []"
    and a4: "cf_endDate pycon_request \<noteq> Some []"
    and a5: "date_read (cf_startDate pycon_request)
               = Some \<lparr>d_year = 2015, d_month = 6, d_day = 1\<rparr>"
    by (simp_all add: date_refused_def date_read_def pycon_request_def date_defs)
  have b1: "date_refused (cf_startDate undated_request)"
    by (simp add: date_refused_def undated_request_def pycon_request_def date_defs)
  have m: "month (the (conferences ds_created ''key1'')) = 6"
    using create_conference_dates[OF n, of bob "''key1''" empty_datastore] a1 a2 a3 a4 a5
    by (auto simp: ds_created_def split: option.splits)
  have f: "create_conference_object (Some bob) undated_request ''key2'' ds_created
       = (Inl InvalidDate, ds_created)"
    using create_conference_dates[OF n' n(2), of bob "''key2''" ds_created] b1
    by (simp add: prod_eq_iff)
  show ?thesis using a5 m b1 f by simp
qed

text \<open>
  A string that does not parse in the format \<^verbatim>\<open>YYYY-MM-DD\<close> as a whole is
  accepted when its first ten characters do: a timestamp creates the
  conference.
\<close>

theorem create_conference_dates_counterexample:
  "strptime_date ''2015-06-01T09:00:00'' = Inl InvalidDate
   \<and> cf_startDate pycon_request = Some ''2015-06-01T09:00:00''
   \<and> fst (create_conference_object (Some bob) pycon_request ''key1'' empty_datastore)
       = Inr (pycon_request\<lparr>cf_city := Some ''Default City'', cf_maxAttendees := Some 2,
             cf_seatsAvailable := Some 2, cf_topics := [''Default'', ''Topic''],
             cf_organizerUserId := Some ''bob''\<rparr>)
   \<and> startDate (the (conferences ds_created ''key1''))
       = Some \<lparr>d_year = 2015, d_month = 6, d_day = 1\<rparr>"
  by (simp add: create_pycon ds_created_def) (simp add: pycon_request_def date_defs)

end
